theory Spec2Isabelle
  imports Main "HOL-Library.Sublist"
begin

section \<open>JavaScript values\<close>

text \<open>
  The server (\<^verbatim>\<open>server/index.js\<close>) receives request bodies that \<^verbatim>\<open>express.json()\<close> has
  already parsed. A parsed value is modelled by \<open>jsval\<close>. An object is its list of own
  properties in enumeration order (keys distinct, as \<^verbatim>\<open>JSON.parse\<close> leaves them);
  \<open>JUndefined\<close> is what reading a missing property gives. A finite number is given by
  the text JavaScript prints for it, which is the same for \<^verbatim>\<open>String(n)\<close>, a template
  literal and \<^verbatim>\<open>JSON.stringify(n)\<close> (plain decimal or exponent form as the engine
  chooses; \<^verbatim>\<open>0\<close> for both zeros). \<open>JInfinity\<close> is the infinite number that
  \<^verbatim>\<open>JSON.parse\<close> returns for a literal out of range, with its sign. Strings are lists
  of 8-bit code units.
\<close>

datatype jsval =
    JUndefined
  | JNull
  | JBool bool
  | JNum string
  | JInfinity bool
  | JStr string
  | JArr "jsval list"
  | JObj "(string \<times> jsval) list"

text \<open>A thrown exception: a \<^verbatim>\<open>TypeError\<close>, or an \<^verbatim>\<open>Error\<close> with its message.\<close>

datatype js_error = TypeError | Error string

fun error_message :: "js_error \<Rightarrow> string" where
  "error_message TypeError = ''TypeError''"
| "error_message (Error m) = m"

text \<open>Truthiness, as tested by \<^verbatim>\<open>!x\<close>, \<^verbatim>\<open>x || y\<close> and \<^verbatim>\<open>x && y\<close>.\<close>

fun truthy :: "jsval \<Rightarrow> bool" where
  "truthy JUndefined = False"
| "truthy JNull = False"
| "truthy (JBool b) = b"
| "truthy (JNum n) = (n \<noteq> ''0'')"
| "truthy (JInfinity negative) = True"
| "truthy (JStr s) = (s \<noteq> [])"
| "truthy (JArr xs) = True"
| "truthy (JObj ps) = True"

fun nullish :: "jsval \<Rightarrow> bool" where
  "nullish JUndefined = True"
| "nullish JNull = True"
| "nullish v = False"

text \<open>\<^verbatim>\<open>typeof v === 'object'\<close> holds of objects, arrays and \<^verbatim>\<open>null\<close>.\<close>

fun typeof_object :: "jsval \<Rightarrow> bool" where
  "typeof_object JNull = True"
| "typeof_object (JArr xs) = True"
| "typeof_object (JObj ps) = True"
| "typeof_object v = False"

text \<open>
  Property read \<^verbatim>\<open>v.k\<close> on a value that is neither \<^verbatim>\<open>undefined\<close> nor \<^verbatim>\<open>null\<close> (on
  those JavaScript throws a \<^verbatim>\<open>TypeError\<close>; every caller below tests \<open>nullish\<close> or
  \<open>truthy\<close> first, as the source does). The server reads only the properties
  \<^verbatim>\<open>name\<close>, \<^verbatim>\<open>environment\<close>, \<^verbatim>\<open>services\<close>, \<^verbatim>\<open>type\<close>, \<^verbatim>\<open>executionEnvironment\<close>,
  \<^verbatim>\<open>region\<close>, \<^verbatim>\<open>database\<close>, \<^verbatim>\<open>cache\<close>, \<^verbatim>\<open>queue\<close>, \<^verbatim>\<open>spec\<close> and \<^verbatim>\<open>metadata\<close>, none
  of which a parsed array, string, number or boolean has.
\<close>

fun get_prop :: "jsval \<Rightarrow> string \<Rightarrow> jsval" where
  "get_prop (JObj ps) k = (case map_of ps k of Some v \<Rightarrow> v | None \<Rightarrow> JUndefined)"
| "get_prop v k = JUndefined"

definition or_else :: "jsval \<Rightarrow> jsval \<Rightarrow> jsval" where
  "or_else a b = (if truthy a then a else b)"

definition and_then :: "jsval \<Rightarrow> jsval \<Rightarrow> jsval" where
  "and_then a b = (if truthy a then b else a)"

subsection \<open>Numbers and strings as text\<close>

text \<open>
  Decimal text of the integers the server itself prints: the exit code of a child
  process and the indices of an array. \<open>digit_char\<close> is applied to digits below 16
  only: decimal digits in \<open>show_nat\<close>, and the two hexadecimal digits of a control
  character in \<open>escape_char\<close>.
\<close>

definition digit_char :: "nat \<Rightarrow> char" where
  "digit_char d = ''0123456789abcdef'' ! d"

function show_nat :: "nat \<Rightarrow> string" where
  "show_nat n =
     (if n < 10 then [digit_char n] else show_nat (n div 10) @ [digit_char (n mod 10)])"
  by pat_completeness auto
termination
  by (relation "measure id") auto

declare show_nat.simps [simp del]

definition show_int :: "int \<Rightarrow> string" where
  "show_int i = (if i < 0 then CHR ''-'' # show_nat (nat (- i)) else show_nat (nat i))"

fun join_with :: "string \<Rightarrow> string list \<Rightarrow> string" where
  "join_with sep [] = []"
| "join_with sep [x] = x"
| "join_with sep (x # y # ys) = x @ sep @ join_with sep (y # ys)"

text \<open>
  The string conversion of a template literal \<^verbatim>\<open>${v}\<close>: an array joins its elements
  with commas (\<^verbatim>\<open>undefined\<close> and \<^verbatim>\<open>null\<close> elements as the empty string), an object is
  \<^verbatim>\<open>[object Object]\<close>.
\<close>

fun to_string :: "jsval \<Rightarrow> string" where
  "to_string JUndefined = ''undefined''"
| "to_string JNull = ''null''"
| "to_string (JBool b) = (if b then ''true'' else ''false'')"
| "to_string (JNum n) = n"
| "to_string (JInfinity negative) = (if negative then ''-Infinity'' else ''Infinity'')"
| "to_string (JStr s) = s"
| "to_string (JArr xs) =
     join_with '','' (map (\<lambda>v. if nullish v then [] else to_string v) xs)"
| "to_string (JObj ps) = ''[object Object]''"

text \<open>
  Object spread \<^verbatim>\<open>{...v}\<close>: the own enumerable properties of \<open>v\<close>; none for
  \<^verbatim>\<open>undefined\<close>, \<^verbatim>\<open>null\<close>, booleans and numbers; the indices for arrays and strings.
\<close>

fun spread :: "jsval \<Rightarrow> (string \<times> jsval) list" where
  "spread (JObj ps) = ps"
| "spread (JArr xs) = zip (map show_nat [0..<length xs]) xs"
| "spread (JStr s) = zip (map show_nat [0..<length s]) (map (\<lambda>c. JStr [c]) s)"
| "spread v = []"

subsection \<open>\<^verbatim>\<open>JSON.stringify(value, null, 2)\<close>\<close>

definition escape_char :: "char \<Rightarrow> string" where
  "escape_char c =
     (if c = CHR 0x22 then [CHR 0x5C, CHR 0x22]
      else if c = CHR 0x5C then [CHR 0x5C, CHR 0x5C]
      else if c = CHR 0x08 then [CHR 0x5C, CHR ''b'']
      else if c = CHR 0x0C then [CHR 0x5C, CHR ''f'']
      else if c = CHR 0x0A then [CHR 0x5C, CHR ''n'']
      else if c = CHR 0x0D then [CHR 0x5C, CHR ''r'']
      else if c = CHR 0x09 then [CHR 0x5C, CHR ''t'']
      else if (of_char c :: nat) < 32
        then [CHR 0x5C, CHR ''u'', CHR ''0'', CHR ''0'',
              digit_char (of_char c div 16), digit_char (of_char c mod 16)]
      else [c])"

definition json_quote :: "string \<Rightarrow> string" where
  "json_quote s = CHR 0x22 # concat (map escape_char s) @ [CHR 0x22]"

definition spaces :: "nat \<Rightarrow> string" where
  "spaces n = replicate n CHR '' ''"

text \<open>
  \<open>stringify ind v\<close> is the text of \<open>v\<close> when it sits at indentation \<open>ind\<close>, with a gap
  of two spaces. A property whose value is \<^verbatim>\<open>undefined\<close> is left out of an object; an
  \<^verbatim>\<open>undefined\<close> array element and an infinite number print as \<^verbatim>\<open>null\<close>. An empty
  object or array prints without a line break.
\<close>

fun stringify :: "nat \<Rightarrow> jsval \<Rightarrow> string" where
  "stringify ind JUndefined = ''null''"
| "stringify ind JNull = ''null''"
| "stringify ind (JBool b) = (if b then ''true'' else ''false'')"
| "stringify ind (JNum n) = n"
| "stringify ind (JInfinity negative) = ''null''"
| "stringify ind (JStr s) = json_quote s"
| "stringify ind (JArr xs) =
     (if xs = [] then ''[]''
      else ''['' @ [CHR 0x0A]
           @ join_with ('','' @ [CHR 0x0A])
               (map (\<lambda>v. spaces (ind + 2) @ stringify (ind + 2) v) xs)
           @ [CHR 0x0A] @ spaces ind @ '']'')"
| "stringify ind (JObj ps) =
     (let qs = filter (\<lambda>p. snd p \<noteq> JUndefined) ps in
      if qs = [] then ''{}''
      else ''{'' @ [CHR 0x0A]
           @ join_with ('','' @ [CHR 0x0A])
               (map (\<lambda>p. spaces (ind + 2) @ json_quote (fst p) @ '': ''
                            @ stringify (ind + 2) (snd p)) qs)
           @ [CHR 0x0A] @ spaces ind @ ''}'')"

section \<open>The config renderer\<close>

subsection \<open>\<^verbatim>\<open>generateScoreYaml\<close>\<close>

text \<open>
  The fragment the object literal holds for one service:
  \<^verbatim>\<open>{ type: ty, properties: { size: 'small' } }\<close>.
\<close>

definition service_fragment :: "string \<Rightarrow> jsval" where
  "service_fragment ty =
     JObj [(''type'', JStr ty), (''properties'', JObj [(''size'', JStr ''small'')])]"

text \<open>
  The object literal \<^verbatim>\<open>scoreConfig\<close>. Each service entry is
  \<^verbatim>\<open>...(services.k && { k: {...} })\<close>: when \<^verbatim>\<open>services.k\<close> is falsy the spread adds
  nothing.
\<close>

definition scoreConfig_literal :: "jsval \<Rightarrow> jsval \<Rightarrow> jsval \<Rightarrow> jsval" where
  "scoreConfig_literal name environment services =
     JObj
      [(''apiVersion'', JStr ''score.dev/v1b1''),
       (''metadata'', JObj [(''name'', name)]),
       (''spec'', JObj
         [(''environment'', JObj
            [(''type'', or_else (get_prop environment ''type'') (JStr ''web'')),
             (''executionEnvironment'',
                or_else (get_prop environment ''executionEnvironment'') (JStr ''aws'')),
             (''region'', get_prop environment ''region'')]),
          (''services'', JObj
            (spread (and_then (get_prop services ''database'')
                       (JObj [(''database'', service_fragment ''postgres'')]))
             @ spread (and_then (get_prop services ''cache'')
                         (JObj [(''cache'', service_fragment ''redis'')]))
             @ spread (and_then (get_prop services ''queue'')
                         (JObj [(''queue'', service_fragment ''rabbitmq'')]))))])]"

text \<open>
  The whole body runs inside \<^verbatim>\<open>try\<close>; whatever is thrown there (the explicit
  \<^verbatim>\<open>Invalid configuration structure\<close>, or the \<^verbatim>\<open>TypeError\<close> of destructuring
  \<^verbatim>\<open>undefined\<close> or \<^verbatim>\<open>null\<close>) is caught and replaced by the one error below.
\<close>

definition generateScoreYaml :: "jsval \<Rightarrow> js_error + string" where
  "generateScoreYaml config =
     (if nullish config then Inl (Error ''Failed to generate score configuration'')
      else
        let name = get_prop config ''name'';
            environment = get_prop config ''environment'';
            services = get_prop config ''services''
        in if \<not> truthy name \<or> \<not> truthy environment \<or> \<not> truthy services
           then Inl (Error ''Failed to generate score configuration'')
           else Inr (stringify 0 (scoreConfig_literal name environment services)))"

subsection \<open>\<^verbatim>\<open>generateTerraformConfig\<close>\<close>

text \<open>
  The three template literals appended to \<^verbatim>\<open>hclConfig\<close>, each as its list of lines
  (the text is the lines joined by a line feed), with the interpolated region and
  application name as parameters.
\<close>

definition hcl_providers :: "string \<Rightarrow> string list" where
  \<open>hcl_providers region =
    [''provider "aws" {'',
     ''  region = "'' @ region @ ''"'',
     ''}'',
     '''',
     ''provider "kubernetes" {'',
     ''  host                   = module.eks.cluster_endpoint'',
     ''  cluster_ca_certificate = base64decode(module.eks.cluster_certificate_authority_data)'',
     ''  exec {'',
     ''    api_version = "client.authentication.k8s.io/v1beta1"'',
     ''    command     = "aws"'',
     ''    args        = ["eks", "get-token", "--cluster-name", module.eks.cluster_name]'',
     ''  }'',
     ''}'',
     '''',
     '''']\<close>

definition hcl_vpc :: "string \<Rightarrow> string \<Rightarrow> string list" where
  \<open>hcl_vpc region name =
    [''module "vpc" {'',
     ''  source  = "terraform-aws-modules/vpc/aws"'',
     ''  version = "~> 5.0"'',
     '''',
     ''  name = "'' @ name @ ''-vpc"'',
     ''  cidr = "10.0.0.0/16"'',
     '''',
     ''  azs             = ["'' @ region @ ''a", "'' @ region @ ''b", "'' @ region @ ''c"]'',
     ''  private_subnets = ["10.0.1.0/24", "10.0.2.0/24", "10.0.3.0/24"]'',
     ''  public_subnets  = ["10.0.101.0/24", "10.0.102.0/24", "10.0.103.0/24"]'',
     '''',
     ''  enable_nat_gateway = true'',
     ''  single_nat_gateway = true'',
     '''',
     ''  tags = {'',
     ''    Terraform = "true"'',
     ''    Environment = "dev"'',
     ''  }'',
     ''}'',
     '''',
     '''']\<close>

definition hcl_eks_and_workload :: "string \<Rightarrow> string list" where
  \<open>hcl_eks_and_workload name =
    [''module "eks" {'',
     ''  source  = "terraform-aws-modules/eks/aws"'',
     ''  version = "~> 19.0"'',
     '''',
     ''  cluster_name    = "'' @ name @ ''-cluster"'',
     ''  cluster_version = "1.27"'',
     '''',
     ''  cluster_endpoint_public_access = true'',
     '''',
     ''  vpc_id                   = module.vpc.vpc_id'',
     ''  subnet_ids               = module.vpc.private_subnets'',
     ''  control_plane_subnet_ids = module.vpc.private_subnets'',
     '''',
     ''  eks_managed_node_groups = {'',
     ''    default = {'',
     ''      min_size     = 1'',
     ''      max_size     = 3'',
     ''      desired_size = 2'',
     '''',
     ''      instance_types = ["t3.medium"]'',
     ''    }'',
     ''  }'',
     '''',
     ''  # Enable IAM roles for service accounts'',
     ''  enable_irsa = true'',
     '''',
     ''  # Add IAM role for RDS access'',
     ''  cluster_addons = {'',
     ''    coredns = {'',
     ''      most_recent = true'',
     ''    }'',
     ''    kube-proxy = {'',
     ''      most_recent = true'',
     ''    }'',
     ''    vpc-cni = {'',
     ''      most_recent = true'',
     ''    }'',
     ''  }'',
     '''',
     ''  tags = {'',
     ''    Environment = "dev"'',
     ''    Terraform   = "true"'',
     ''  }'',
     ''}'',
     '''',
     ''# Create IAM role policy for EKS'',
     ''resource "aws_iam_role_policy" "eks_node_policy" {'',
     ''  name = "eks-node-policy"'',
     ''  role = module.eks.eks_managed_node_groups["default"].iam_role_name'',
     '''',
     ''  policy = jsonencode({'',
     ''    Version = "2012-10-17"'',
     ''    Statement = ['',
     ''      {'',
     ''        Effect = "Allow"'',
     ''        Action = ['',
     ''          "ec2:DescribeInstances",'',
     ''          "ec2:DescribeRegions",'',
     ''          "ec2:DescribeRouteTables",'',
     ''          "ec2:DescribeSecurityGroups",'',
     ''          "ec2:DescribeSubnets",'',
     ''          "ec2:DescribeVolumes",'',
     ''          "ec2:DescribeVolumesModifications",'',
     ''          "ec2:DescribeVpcs",'',
     ''          "eks:DescribeCluster"'',
     ''        ]'',
     ''        Resource = "*"'',
     ''      }'',
     ''    ]'',
     ''  })'',
     ''}'',
     '''',
     ''# RDS instance configuration'',
     ''resource "aws_db_subnet_group" "main" {'',
     ''  name       = "'' @ name @ ''-db-subnet-group"'',
     ''  subnet_ids = module.vpc.private_subnets'',
     '''',
     ''  tags = {'',
     ''    Name = "'' @ name @ ''-db-subnet-group"'',
     ''  }'',
     ''}'',
     '''',
     ''resource "aws_security_group" "rds" {'',
     ''  name        = "'' @ name @ ''-rds-sg"'',
     ''  description = "Security group for RDS instance"'',
     ''  vpc_id      = module.vpc.vpc_id'',
     '''',
     ''  ingress {'',
     ''    from_port       = 5432'',
     ''    to_port         = 5432'',
     ''    protocol        = "tcp"'',
     ''    security_groups = [module.eks.cluster_security_group_id]'',
     ''  }'',
     '''',
     ''  egress {'',
     ''    from_port   = 0'',
     ''    to_port     = 0'',
     ''    protocol    = "-1"'',
     ''    cidr_blocks = ["0.0.0.0/0"]'',
     ''  }'',
     '''',
     ''  tags = {'',
     ''    Name = "'' @ name @ ''-rds-sg"'',
     ''  }'',
     ''}'',
     '''',
     ''resource "aws_db_instance" "main" {'',
     ''  identifier           = "'' @ name @ ''-db"'',
     ''  allocated_storage    = 20'',
     ''  storage_type        = "gp2"'',
     ''  engine              = "postgres"'',
     ''  engine_version      = "13.7"'',
     ''  instance_class      = "db.t3.micro"'',
     ''  db_name             = "'' @ name @ ''_db"'',
     ''  username            = "postgres"'',
     ''  password            = "postgres123"  # In production, use AWS Secrets Manager'',
     ''  skip_final_snapshot = true'',
     '''',
     ''  vpc_security_group_ids = [aws_security_group.rds.id]'',
     ''  db_subnet_group_name   = aws_db_subnet_group.main.name'',
     '''',
     ''  tags = {'',
     ''    Name = "'' @ name @ ''-db"'',
     ''  }'',
     ''}'',
     '''',
     ''# Create OIDC provider for EKS'',
     ''data "tls_certificate" "eks" {'',
     ''  url = module.eks.cluster_oidc_issuer_url'',
     ''}'',
     '''',
     ''resource "aws_iam_openid_connect_provider" "eks" {'',
     ''  client_id_list  = ["sts.amazonaws.com"]'',
     ''  thumbprint_list = [data.tls_certificate.eks.certificates[0].sha1_fingerprint]'',
     ''  url             = module.eks.cluster_oidc_issuer_url'',
     ''}'',
     '''',
     ''# Kubernetes service account with IAM role'',
     ''resource "kubernetes_service_account" "app" {'',
     ''  metadata {'',
     ''    name      = "app"'',
     ''    namespace = "default"'',
     ''    annotations = {'',
     ''      "eks.amazonaws.com/role-arn" = module.eks.eks_managed_node_groups["default"].iam_role_name'',
     ''    }'',
     ''  }'',
     ''}'',
     '''',
     ''# Kubernetes secret for database connection details'',
     ''resource "kubernetes_secret" "db_credentials" {'',
     ''  metadata {'',
     ''    name      = "app-db-credentials"'',
     ''    namespace = "default"'',
     ''  }'',
     '''',
     ''  data = {'',
     ''    DB_HOST     = aws_db_instance.main.address'',
     ''    DB_PORT     = "5432"'',
     ''    DB_NAME     = aws_db_instance.main.db_name'',
     ''    DB_USER     = aws_db_instance.main.username'',
     ''    DB_PASSWORD = aws_db_instance.main.password'',
     ''  }'',
     ''}'',
     '''',
     ''# Update the Kubernetes deployment to use a public nginx image for testing'',
     ''resource "kubernetes_deployment" "app" {'',
     ''  metadata {'',
     ''    name = "app"'',
     ''    namespace = "default"'',
     ''    labels = {'',
     ''      app = "app"'',
     ''    }'',
     ''  }'',
     '''',
     ''  spec {'',
     ''    replicas = 2'',
     '''',
     ''    selector {'',
     ''      match_labels = {'',
     ''        app = "app"'',
     ''      }'',
     ''    }'',
     '''',
     ''    template {'',
     ''      metadata {'',
     ''        labels = {'',
     ''          app = "app"'',
     ''        }'',
     ''      }'',
     '''',
     ''      spec {'',
     ''        service_account_name = kubernetes_service_account.app.metadata[0].name'',
     '''',
     ''        container {'',
     ''          # Use nginx as a test image since app:latest doesn't exist'',
     ''          image = "nginx:latest"'',
     ''          name  = "app"'',
     '''',
     ''          env_from {'',
     ''            secret_ref {'',
     ''              name = kubernetes_secret.db_credentials.metadata[0].name'',
     ''            }'',
     ''          }'',
     '''',
     ''          # Add readiness and liveness probes'',
     ''          readiness_probe {'',
     ''            http_get {'',
     ''              path = "/"'',
     ''              port = 80'',
     ''            }'',
     ''            initial_delay_seconds = 10'',
     ''            period_seconds = 5'',
     ''          }'',
     '''',
     ''          liveness_probe {'',
     ''            http_get {'',
     ''              path = "/"'',
     ''              port = 80'',
     ''            }'',
     ''            initial_delay_seconds = 10'',
     ''            period_seconds = 5'',
     ''          }'',
     '''',
     ''          resources {'',
     ''            limits = {'',
     ''              cpu    = "0.5"'',
     ''              memory = "512Mi"'',
     ''            }'',
     ''            requests = {'',
     ''              cpu    = "250m"'',
     ''              memory = "50Mi"'',
     ''            }'',
     ''          }'',
     '''',
     ''          # Update container port to match nginx'',
     ''          port {'',
     ''            container_port = 80'',
     ''          }'',
     ''        }'',
     ''      }'',
     ''    }'',
     ''  }'',
     ''}'',
     '''',
     ''# Update the service to match nginx port'',
     ''resource "kubernetes_service" "app" {'',
     ''  metadata {'',
     ''    name = "app"'',
     ''    namespace = "default"'',
     ''  }'',
     '''',
     ''  spec {'',
     ''    selector = {'',
     ''      app = "app"'',
     ''    }'',
     '''',
     ''    port {'',
     ''      port        = 80'',
     ''      target_port = 80'',
     ''    }'',
     '''',
     ''    type = "LoadBalancer"'',
     ''  }'',
     ''}'',
     '''',
     ''# Ingress configuration'',
     ''resource "kubernetes_ingress_v1" "app" {'',
     ''  metadata {'',
     ''    name = "app"'',
     ''    namespace = "default"'',
     ''    annotations = {'',
     ''      "kubernetes.io/ingress.class" = "alb"'',
     ''      "alb.ingress.kubernetes.io/scheme" = "internet-facing"'',
     ''      "alb.ingress.kubernetes.io/target-type" = "ip"'',
     ''      "alb.ingress.kubernetes.io/listen-ports" = jsonencode([{"HTTP": 80}])'',
     ''    }'',
     ''  }'',
     '''',
     ''  spec {'',
     ''    rule {'',
     ''      http {'',
     ''        path {'',
     ''          path = "/"'',
     ''          backend {'',
     ''            service {'',
     ''              name = kubernetes_service.app.metadata[0].name'',
     ''              port {'',
     ''                number = 80'',
     ''              }'',
     ''            }'',
     ''          }'',
     ''        }'',
     ''      }'',
     ''    }'',
     ''  }'',
     ''}'',
     '''']\<close>

definition lines_text :: "string list \<Rightarrow> string" where
  "lines_text ls = join_with [CHR 0x0A] ls"

text \<open>
  Destructuring \<^verbatim>\<open>scoreConfig.spec\<close> and \<^verbatim>\<open>environment\<close>, and reading
  \<^verbatim>\<open>scoreConfig.metadata.name\<close>, throw a \<^verbatim>\<open>TypeError\<close> when the value read from is
  \<^verbatim>\<open>undefined\<close> or \<^verbatim>\<open>null\<close>.
\<close>

definition generateTerraformConfig :: "jsval \<Rightarrow> js_error + string" where
  "generateTerraformConfig scoreConfig =
     (if nullish scoreConfig \<or> nullish (get_prop scoreConfig ''spec'') then Inl TypeError
      else
        let environment = get_prop (get_prop scoreConfig ''spec'') ''environment'' in
        if nullish environment then Inl TypeError
        else
          let region = to_string (get_prop environment ''region'') in
          if nullish (get_prop scoreConfig ''metadata'') then Inl TypeError
          else
            let name = to_string (get_prop (get_prop scoreConfig ''metadata'') ''name'')
            in Inr (lines_text (hcl_providers region)
                    @ lines_text (hcl_vpc region name)
                    @ lines_text (hcl_eks_and_workload name)))"

section \<open>The file system and paths\<close>

text \<open>
  A path is the list of its segments below the root. The file system maps a path to
  what is there. The \<^verbatim>\<open>fs\<close> calls fail as Node's do when a segment is of the wrong
  kind; the error carries the error code only.
\<close>

type_synonym path = "string list"

datatype node = Dir | File string

type_synonym filesystem = "path \<Rightarrow> node option"

fun is_file :: "node option \<Rightarrow> bool" where
  "is_file (Some (File c)) = True"
| "is_file n = False"

text \<open>
  \<^verbatim>\<open>fs.existsSync\<close> of a path string with the segments \<open>p\<close>. When the string ends in
  a slash (\<open>slash\<close>), only a directory is found there: for a regular file the lookup
  fails and the answer is \<^verbatim>\<open>false\<close>.
\<close>

definition existsSync :: "filesystem \<Rightarrow> path \<Rightarrow> bool \<Rightarrow> bool" where
  "existsSync f p slash = (if slash then f p = Some Dir else f p \<noteq> None)"

text \<open>\<^verbatim>\<open>fs.mkdirSync(p, { recursive: true })\<close>: creates \<open>p\<close> and its missing ancestors.\<close>

definition mkdirSync :: "filesystem \<Rightarrow> path \<Rightarrow> js_error + filesystem" where
  "mkdirSync f p =
     (if list_ex (\<lambda>q. is_file (f q)) (prefixes p) then Inl (Error ''ENOTDIR'')
      else Inr (\<lambda>q. if q \<in> set (prefixes p) then Some Dir else f q))"

definition writeFileSync :: "filesystem \<Rightarrow> path \<Rightarrow> string \<Rightarrow> js_error + filesystem" where
  "writeFileSync f p content =
     (if p = [] then Inl (Error ''EISDIR'')
      else case f (butlast p) of
             None \<Rightarrow> Inl (Error ''ENOENT'')
           | Some (File c) \<Rightarrow> Inl (Error ''ENOTDIR'')
           | Some Dir \<Rightarrow>
               (if f p = Some Dir then Inl (Error ''EISDIR'')
                else Inr (f(p \<mapsto> File content))))"

definition readFileSync :: "filesystem \<Rightarrow> path \<Rightarrow> js_error + string" where
  "readFileSync f p =
     (case f p of
        None \<Rightarrow> Inl (Error ''ENOENT'')
      | Some Dir \<Rightarrow> Inl (Error ''EISDIR'')
      | Some (File c) \<Rightarrow> Inr c)"

text \<open>
  \<^verbatim>\<open>path.join(base, ...parts)\<close> for an absolute, normalised \<open>base\<close> (as \<^verbatim>\<open>__dirname\<close>
  is): the parts are cut at \<^verbatim>\<open>/\<close>, empty and \<^verbatim>\<open>.\<close> segments are dropped, and \<^verbatim>\<open>..\<close>
  removes the segment before it (at the root it has no effect). \<open>path_join\<close> gives the
  segments of the result. The result string keeps a trailing slash of the joined
  string, that is of its last part: \<open>ends_with_slash\<close> of that part. The other \<^verbatim>\<open>fs\<close>
  calls and \<^verbatim>\<open>process.chdir\<close> treat the path with and without it alike.
\<close>

fun split_slash :: "string \<Rightarrow> string list" where
  "split_slash [] = [[]]"
| "split_slash (c # cs) =
     (if c = CHR ''/'' then [] # split_slash cs
      else case split_slash cs of
             [] \<Rightarrow> [[c]]
           | (s # ss) \<Rightarrow> (c # s) # ss)"

fun resolve_segment :: "path \<Rightarrow> string \<Rightarrow> path" where
  "resolve_segment p seg =
     (if seg = [] \<or> seg = ''.'' then p
      else if seg = ''..'' then butlast p
      else p @ [seg])"

definition path_join :: "path \<Rightarrow> string list \<Rightarrow> path" where
  "path_join base parts = foldl resolve_segment base (concat (map split_slash parts))"

definition ends_with_slash :: "string \<Rightarrow> bool" where
  "ends_with_slash part = (part \<noteq> [] \<and> last part = CHR ''/'')"

section \<open>The process supervisor and the event feed\<close>

text \<open>
  What the child process does is an input of the model: the list of events Node
  delivers for it, in arrival order. \<open>Close None\<close> is a close with a \<^verbatim>\<open>null\<close> code
  (the child was killed by a signal); \<open>SpawnError\<close> is the child's \<^verbatim>\<open>error\<close> event
  with the message of its error.
\<close>

datatype child_event =
    Stdout string
  | Stderr string
  | Close "int option"
  | SpawnError string

text \<open>
  One server-sent event \<^verbatim>\<open>data: <json>\<close>: \<^verbatim>\<open>{ log: message }\<close>,
  \<^verbatim>\<open>{ status: s }\<close> or \<^verbatim>\<open>{ error: message }\<close>.
\<close>

datatype sse_event = LogEvent string | StatusEvent string | ErrorEvent string

text \<open>
  The response object \<^verbatim>\<open>res\<close> of a streaming request: what has been written to the
  subscriber, and whether \<^verbatim>\<open>res.end()\<close> has been called. Node delivers nothing that is
  written after the end.
\<close>

record sse_response =
  written :: "sse_event list"
  ended :: bool

definition res_write :: "sse_event \<Rightarrow> sse_response \<Rightarrow> sse_response" where
  "res_write e r = (if ended r then r else r\<lparr>written := written r @ [e]\<rparr>)"

definition res_end :: "sse_response \<Rightarrow> sse_response" where
  "res_end r = r\<lparr>ended := True\<rparr>"

text \<open>
  The promise of \<^verbatim>\<open>runCommandWithStream\<close> settles once: \<^verbatim>\<open>resolve()\<close>, or
  \<^verbatim>\<open>reject\<close> with an error of the given message. A later \<^verbatim>\<open>resolve\<close> or \<^verbatim>\<open>reject\<close>
  has no effect. The command, its arguments and its working directory do not enter
  what the supervisor does with the events; the caller records them as the spawned
  process (\<open>spawn_call\<close> below).
\<close>

datatype settlement = Resolved | Rejected string

record run_state =
  error_text :: string
  settled :: "settlement option"
  res :: sse_response

fun show_code :: "int option \<Rightarrow> string" where
  "show_code None = ''null''"
| "show_code (Some c) = show_int c"

text \<open>
  \<open>settle k r\<close>: the promise is settled with \<open>r\<close> if it is still pending, and the
  reaction \<open>k\<close> registered by the caller (\<^verbatim>\<open>.then\<close> / \<^verbatim>\<open>.catch\<close>) runs on the response
  before any further event of the child is handled.
\<close>

definition settle ::
  "(settlement \<Rightarrow> sse_response \<Rightarrow> sse_response) \<Rightarrow> settlement \<Rightarrow> run_state \<Rightarrow> run_state" where
  "settle k r st =
     (case settled st of
        Some r' \<Rightarrow> st
      | None \<Rightarrow> st\<lparr>settled := Some r, res := k r (res st)\<rparr>)"

fun on_event ::
  "(settlement \<Rightarrow> sse_response \<Rightarrow> sse_response) \<Rightarrow> run_state \<Rightarrow> child_event \<Rightarrow> run_state" where
  "on_event k st (Stdout message) = st\<lparr>res := res_write (LogEvent message) (res st)\<rparr>"
| "on_event k st (Stderr message) =
     st\<lparr>error_text := error_text st @ message,
        res := res_write (LogEvent message) (res st)\<rparr>"
| "on_event k st (Close code) =
     (if code = Some 0 then settle k Resolved st
      else settle k
             (Rejected (if error_text st \<noteq> [] then error_text st
                        else ''Process exited with code '' @ show_code code))
             st)"
| "on_event k st (SpawnError message) = settle k (Rejected message) st"

definition runCommandWithStream ::
  "(settlement \<Rightarrow> sse_response \<Rightarrow> sse_response) \<Rightarrow> sse_response \<Rightarrow> child_event list \<Rightarrow> run_state" where
  "runCommandWithStream k r evs =
     foldl (on_event k) \<lparr>error_text = [], settled = None, res = r\<rparr> evs"

section \<open>The server\<close>

text \<open>
  The state of the server process: the file system, the working directory of the
  process (\<^verbatim>\<open>process.chdir\<close>), and the module-level map \<^verbatim>\<open>processes\<close>, whose entries
  are read as \<^verbatim>\<open>{ status, logs }\<close>.
\<close>

record session_entry =
  status :: string
  logs :: "string list"

record server_state =
  fs :: filesystem
  cwd :: path
  processes :: "string \<Rightarrow> session_entry option"

datatype response =
    JsonResponse nat jsval
  | EventStream "sse_event list" bool

record spawn_call =
  command :: string
  args :: "string list"
  spawn_cwd :: path

text \<open>
  What one request leaves behind: the response, the child processes it spawned, and
  the state of the server.
\<close>

record outcome =
  response :: response
  spawned :: "spawn_call list"
  state :: server_state

text \<open>A query parameter that is absent or the empty string is falsy.\<close>

record query =
  q_sessionId :: "string option"
  q_region :: "string option"

definition sendResponse :: "nat \<Rightarrow> (string \<times> jsval) list \<Rightarrow> response" where
  "sendResponse code data =
     JsonResponse code (JObj ((''success'', JBool (200 \<le> code \<and> code < 300)) # data))"

definition json_error :: "nat \<Rightarrow> string \<Rightarrow> response" where
  "json_error code msg = JsonResponse code (JObj [(''error'', JStr msg)])"

text \<open>
  An exception that leaves a route handler reaches the global error handler at the
  end of the file.
\<close>

definition global_error_handler :: response where
  "global_error_handler = sendResponse 500 [(''error'', JStr ''Internal server error'')]"

subsection \<open>\<^verbatim>\<open>POST /api/generate\<close>\<close>

definition generate_caught :: "js_error \<Rightarrow> response" where
  "generate_caught e =
     sendResponse 500
       [(''error'', JStr (if error_message e \<noteq> [] then error_message e
                          else ''Failed to generate score file''))]"

definition api_generate :: "path \<Rightarrow> server_state \<Rightarrow> jsval \<Rightarrow> response \<times> server_state" where
  "api_generate dirname s config =
     (if \<not> truthy config \<or> \<not> typeof_object config
        then (sendResponse 400 [(''error'', JStr ''Invalid request body'')], s)
      else if \<not> truthy (get_prop config ''name'')
        then (sendResponse 400 [(''error'', JStr ''Application name is required'')], s)
      else if \<not> truthy (get_prop config ''environment'')
              \<or> \<not> truthy (get_prop (get_prop config ''environment'') ''region'')
        then (sendResponse 400 [(''error'', JStr ''AWS region is required'')], s)
      else
        case generateScoreYaml config of
          Inl e \<Rightarrow> (generate_caught e, s)
        | Inr scoreFile \<Rightarrow>
            (let envDir = path_join dirname [''environment''] in
             (case (if \<not> existsSync (fs s) envDir False then mkdirSync (fs s) envDir
                    else Inr (fs s)) of
                Inl e \<Rightarrow> (generate_caught e, s)
              | Inr f1 \<Rightarrow>
                  (case writeFileSync f1 (path_join envDir [''score.yaml'']) scoreFile of
                     Inl e \<Rightarrow> (generate_caught e, s\<lparr>fs := f1\<rparr>)
                   | Inr f2 \<Rightarrow>
                       (sendResponse 200
                          [(''scoreFile'', JStr scoreFile),
                           (''message'', JStr ''Score file generated successfully'')],
                        s\<lparr>fs := f2\<rparr>)))))"

subsection \<open>The lifecycle endpoints\<close>

text \<open>The template literal \<^verbatim>\<open>mainTf\<close> of the init endpoint, as its list of lines.\<close>

definition mainTf_lines :: "string \<Rightarrow> string list" where
  \<open>mainTf_lines region =
    ['''',
     ''terraform {'',
     ''  required_providers {'',
     ''    aws = {'',
     ''      source  = "hashicorp/aws"'',
     ''      version = "~> 5.0"'',
     ''    }'',
     ''    kubernetes = {'',
     ''      source  = "hashicorp/kubernetes"'',
     ''      version = "~> 2.0"'',
     ''    }'',
     ''    helm = {'',
     ''      source  = "hashicorp/helm"'',
     ''      version = "~> 2.0"'',
     ''    }'',
     ''  }'',
     ''}'',
     '''',
     ''provider "aws" {'',
     ''  region = "'' @ region @ ''"'',
     ''}'',
     '''',
     ''# VPC Configuration'',
     ''module "vpc" {'',
     ''  source  = "terraform-aws-modules/vpc/aws"'',
     ''  version = "~> 5.0"'',
     '''',
     ''  name = "app-vpc"'',
     ''  cidr = "10.0.0.0/16"'',
     '''',
     ''  azs             = ["'' @ region @ ''a", "'' @ region @ ''b", "'' @ region @ ''c"]'',
     ''  private_subnets = ["10.0.1.0/24", "10.0.2.0/24", "10.0.3.0/24"]'',
     ''  public_subnets  = ["10.0.101.0/24", "10.0.102.0/24", "10.0.103.0/24"]'',
     '''',
     ''  enable_nat_gateway = true'',
     ''  single_nat_gateway = true'',
     '''',
     ''  tags = {'',
     ''    Terraform = "true"'',
     ''    Environment = "dev"'',
     ''  }'',
     ''}'',
     '''',
     ''# EKS Cluster'',
     ''module "eks" {'',
     ''  source  = "terraform-aws-modules/eks/aws"'',
     ''  version = "~> 19.0"'',
     '''',
     ''  cluster_name    = "app-cluster"'',
     ''  cluster_version = "1.27"'',
     '''',
     ''  cluster_endpoint_public_access = true'',
     '''',
     ''  vpc_id                   = module.vpc.vpc_id'',
     ''  subnet_ids               = module.vpc.private_subnets'',
     ''  control_plane_subnet_ids = module.vpc.private_subnets'',
     '''',
     ''  eks_managed_node_groups = {'',
     ''    default = {'',
     ''      min_size     = 1'',
     ''      max_size     = 3'',
     ''      desired_size = 2'',
     '''',
     ''      instance_types = ["t3.medium"]'',
     ''    }'',
     ''  }'',
     '''',
     ''  # Enable IAM roles for service accounts'',
     ''  enable_irsa = true'',
     '''',
     ''  # Add IAM role for RDS access'',
     ''  cluster_addons = {'',
     ''    coredns = {'',
     ''      most_recent = true'',
     ''    }'',
     ''    kube-proxy = {'',
     ''      most_recent = true'',
     ''    }'',
     ''    vpc-cni = {'',
     ''      most_recent = true'',
     ''    }'',
     ''  }'',
     '''',
     ''  tags = {'',
     ''    Environment = "dev"'',
     ''    Terraform   = "true"'',
     ''  }'',
     ''}'',
     '''',
     ''# Create IAM role policy for EKS'',
     ''resource "aws_iam_role_policy" "eks_node_policy" {'',
     ''  name = "eks-node-policy"'',
     ''  role = module.eks.eks_managed_node_groups["default"].iam_role_name'',
     '''',
     ''  policy = jsonencode({'',
     ''    Version = "2012-10-17"'',
     ''    Statement = ['',
     ''      {'',
     ''        Effect = "Allow"'',
     ''        Action = ['',
     ''          "ec2:DescribeInstances",'',
     ''          "ec2:DescribeRegions",'',
     ''          "ec2:DescribeRouteTables",'',
     ''          "ec2:DescribeSecurityGroups",'',
     ''          "ec2:DescribeSubnets",'',
     ''          "ec2:DescribeVolumes",'',
     ''          "ec2:DescribeVolumesModifications",'',
     ''          "ec2:DescribeVpcs",'',
     ''          "eks:DescribeCluster"'',
     ''        ]'',
     ''        Resource = "*"'',
     ''      }'',
     ''    ]'',
     ''  })'',
     ''}'',
     '''',
     ''# RDS Configuration'',
     ''resource "aws_db_subnet_group" "main" {'',
     ''  name       = "app-db-subnet-group"'',
     ''  subnet_ids = module.vpc.private_subnets'',
     '''',
     ''  tags = {'',
     ''    Name = "app-db-subnet-group"'',
     ''  }'',
     ''}'',
     '''',
     ''resource "aws_security_group" "rds" {'',
     ''  name        = "app-rds-sg"'',
     ''  description = "Security group for RDS instance"'',
     ''  vpc_id      = module.vpc.vpc_id'',
     '''',
     ''  ingress {'',
     ''    from_port       = 5432'',
     ''    to_port         = 5432'',
     ''    protocol        = "tcp"'',
     ''    security_groups = [module.eks.cluster_security_group_id]'',
     ''  }'',
     '''',
     ''  egress {'',
     ''    from_port   = 0'',
     ''    to_port     = 0'',
     ''    protocol    = "-1"'',
     ''    cidr_blocks = ["0.0.0.0/0"]'',
     ''  }'',
     '''',
     ''  tags = {'',
     ''    Name = "app-rds-sg"'',
     ''  }'',
     ''}'',
     '''',
     ''resource "aws_db_instance" "main" {'',
     ''  identifier           = "app-db"'',
     ''  allocated_storage    = 20'',
     ''  storage_type        = "gp2"'',
     ''  engine              = "postgres"'',
     ''  engine_version      = "14"'',
     ''  instance_class      = "db.t3.micro"'',
     ''  db_name             = "appdb"'',
     ''  username            = "postgres"'',
     ''  password            = "postgres123"  # In production, use AWS Secrets Manager'',
     ''  skip_final_snapshot = true'',
     '''',
     ''  vpc_security_group_ids = [aws_security_group.rds.id]'',
     ''  db_subnet_group_name   = aws_db_subnet_group.main.name'',
     '''',
     ''  tags = {'',
     ''    Name = "app-db"'',
     ''  }'',
     ''}'',
     '''',
     ''# Create OIDC provider for EKS'',
     ''data "tls_certificate" "eks" {'',
     ''  url = module.eks.cluster_oidc_issuer_url'',
     ''}'',
     '''',
     ''resource "aws_iam_openid_connect_provider" "eks" {'',
     ''  client_id_list  = ["sts.amazonaws.com"]'',
     ''  thumbprint_list = [data.tls_certificate.eks.certificates[0].sha1_fingerprint]'',
     ''  url             = module.eks.cluster_oidc_issuer_url'',
     ''}'',
     '''',
     ''# Kubernetes provider configuration'',
     ''provider "kubernetes" {'',
     ''  host                   = module.eks.cluster_endpoint'',
     ''  cluster_ca_certificate = base64decode(module.eks.cluster_certificate_authority_data)'',
     ''  exec {'',
     ''    api_version = "client.authentication.k8s.io/v1beta1"'',
     ''    command     = "aws"'',
     ''    args        = ["eks", "get-token", "--cluster-name", module.eks.cluster_name]'',
     ''  }'',
     ''}'',
     '''',
     ''# Kubernetes service account with IAM role'',
     ''resource "kubernetes_service_account" "app" {'',
     ''  metadata {'',
     ''    name      = "app"'',
     ''    namespace = "default"'',
     ''    annotations = {'',
     ''      "eks.amazonaws.com/role-arn" = module.eks.eks_managed_node_groups["default"].iam_role_name'',
     ''    }'',
     ''  }'',
     ''}'',
     '''',
     ''# Kubernetes secret for database connection details'',
     ''resource "kubernetes_secret" "db_credentials" {'',
     ''  metadata {'',
     ''    name      = "app-db-credentials"'',
     ''    namespace = "default"'',
     ''  }'',
     '''',
     ''  data = {'',
     ''    DB_HOST     = aws_db_instance.main.address'',
     ''    DB_PORT     = "5432"'',
     ''    DB_NAME     = aws_db_instance.main.db_name'',
     ''    DB_USER     = aws_db_instance.main.username'',
     ''    DB_PASSWORD = aws_db_instance.main.password'',
     ''  }'',
     ''}'',
     '''',
     ''# Kubernetes deployment'',
     ''resource "kubernetes_deployment" "app" {'',
     ''  metadata {'',
     ''    name = "app"'',
     ''    namespace = "default"'',
     ''    labels = {'',
     ''      app = "app"'',
     ''    }'',
     ''  }'',
     '''',
     ''  spec {'',
     ''    replicas = 2'',
     '''',
     ''    selector {'',
     ''      match_labels = {'',
     ''        app = "app"'',
     ''      }'',
     ''    }'',
     '''',
     ''    template {'',
     ''      metadata {'',
     ''        labels = {'',
     ''          app = "app"'',
     ''        }'',
     ''      }'',
     '''',
     ''      spec {'',
     ''        service_account_name = kubernetes_service_account.app.metadata[0].name'',
     '''',
     ''        container {'',
     ''          # Use nginx as a test image since app:latest doesn't exist'',
     ''          image = "nginx:latest"'',
     ''          name  = "app"'',
     '''',
     ''          env_from {'',
     ''            secret_ref {'',
     ''              name = kubernetes_secret.db_credentials.metadata[0].name'',
     ''            }'',
     ''          }'',
     '''',
     ''          # Add readiness and liveness probes'',
     ''          readiness_probe {'',
     ''            http_get {'',
     ''              path = "/"'',
     ''              port = 80'',
     ''            }'',
     ''            initial_delay_seconds = 10'',
     ''            period_seconds = 5'',
     ''          }'',
     '''',
     ''          liveness_probe {'',
     ''            http_get {'',
     ''              path = "/"'',
     ''              port = 80'',
     ''            }'',
     ''            initial_delay_seconds = 10'',
     ''            period_seconds = 5'',
     ''          }'',
     '''',
     ''          resources {'',
     ''            limits = {'',
     ''              cpu    = "0.5"'',
     ''              memory = "512Mi"'',
     ''            }'',
     ''            requests = {'',
     ''              cpu    = "250m"'',
     ''              memory = "50Mi"'',
     ''            }'',
     ''          }'',
     '''',
     ''          # Update container port to match nginx'',
     ''          port {'',
     ''            container_port = 80'',
     ''          }'',
     ''        }'',
     ''      }'',
     ''    }'',
     ''  }'',
     ''}'',
     '''',
     ''# Kubernetes service'',
     ''resource "kubernetes_service" "app" {'',
     ''  metadata {'',
     ''    name = "app"'',
     ''    namespace = "default"'',
     ''  }'',
     '''',
     ''  spec {'',
     ''    selector = {'',
     ''      app = "app"'',
     ''    }'',
     '''',
     ''    port {'',
     ''      port        = 80'',
     ''      target_port = 80'',
     ''    }'',
     '''',
     ''    type = "LoadBalancer"'',
     ''  }'',
     ''}'',
     '''',
     ''# Ingress configuration'',
     ''resource "kubernetes_ingress_v1" "app" {'',
     ''  metadata {'',
     ''    name = "app"'',
     ''    namespace = "default"'',
     ''    annotations = {'',
     ''      "kubernetes.io/ingress.class" = "alb"'',
     ''      "alb.ingress.kubernetes.io/scheme" = "internet-facing"'',
     ''      "alb.ingress.kubernetes.io/target-type" = "ip"'',
     ''      "alb.ingress.kubernetes.io/listen-ports" = jsonencode([{"HTTP": 80}])'',
     ''    }'',
     ''  }'',
     '''',
     ''  spec {'',
     ''    rule {'',
     ''      http {'',
     ''        path {'',
     ''          path = "/"'',
     ''          backend {'',
     ''            service {'',
     ''              name = kubernetes_service.app.metadata[0].name'',
     ''              port {'',
     ''                number = 80'',
     ''              }'',
     ''            }'',
     ''          }'',
     ''        }'',
     ''      }'',
     ''    }'',
     ''  }'',
     ''}'',
     '''']\<close>

definition mainTf :: "string \<Rightarrow> string" where
  "mainTf region = lines_text (mainTf_lines region)"

definition chdir :: "server_state \<Rightarrow> path \<Rightarrow> js_error + server_state" where
  "chdir s p =
     (case fs s p of
        Some Dir \<Rightarrow> Inr (s\<lparr>cwd := p\<rparr>)
      | Some (File c) \<Rightarrow> Inl (Error ''ENOTDIR'')
      | None \<Rightarrow> Inl (Error ''ENOENT''))"

text \<open>
  The reactions every lifecycle endpoint registers on the promise:
  \<^verbatim>\<open>.then\<close> writes \<^verbatim>\<open>{ status: 'completed' }\<close> and ends the response, \<^verbatim>\<open>.catch\<close> writes
  \<^verbatim>\<open>{ error: error.message }\<close> and ends the response.
\<close>

fun finish :: "settlement \<Rightarrow> sse_response \<Rightarrow> sse_response" where
  "finish Resolved r = res_end (res_write (StatusEvent ''completed'') r)"
| "finish (Rejected message) r = res_end (res_write (ErrorEvent message) r)"

text \<open>
  The tail the four lifecycle endpoints share word for word: the event-stream
  headers, \<^verbatim>\<open>process.chdir(envDir)\<close>, then
  \<^verbatim>\<open>runCommandWithStream('terraform', args, envDir, res)\<close> with the reactions above.
\<close>

definition stream_terraform ::
  "string list \<Rightarrow> path \<Rightarrow> server_state \<Rightarrow> child_event list \<Rightarrow> outcome" where
  "stream_terraform tf_args envDir s evs =
     (case chdir s envDir of
        Inl e \<Rightarrow> \<lparr>response = global_error_handler, spawned = [], state = s\<rparr>
      | Inr s' \<Rightarrow>
          let st = runCommandWithStream finish \<lparr>written = [], ended = False\<rparr> evs
          in \<lparr>response = EventStream (written (res st)) (ended (res st)),
              spawned = [\<lparr>command = ''terraform'', args = tf_args, spawn_cwd = envDir\<rparr>],
              state = s'\<rparr>)"

fun present :: "string option \<Rightarrow> bool" where
  "present None = False"
| "present (Some v) = (v \<noteq> [])"

fun param :: "string option \<Rightarrow> string" where
  "param None = []"
| "param (Some v) = v"

definition api_terraform_init ::
  "path \<Rightarrow> server_state \<Rightarrow> query \<Rightarrow> child_event list \<Rightarrow> outcome" where
  "api_terraform_init dirname s q evs =
     (if \<not> present (q_sessionId q) \<or> \<not> present (q_region q)
        then \<lparr>response = json_error 400 ''Session ID and region are required'',
              spawned = [], state = s\<rparr>
      else
        let envDir = path_join dirname [''environments'', param (q_sessionId q)];
            slash = ends_with_slash (param (q_sessionId q))
        in
        (case (if \<not> existsSync (fs s) envDir slash then mkdirSync (fs s) envDir
               else Inr (fs s)) of
           Inl e \<Rightarrow> \<lparr>response = global_error_handler, spawned = [], state = s\<rparr>
         | Inr f1 \<Rightarrow>
             (case writeFileSync f1 (path_join envDir [''main.tf''])
                     (mainTf (param (q_region q))) of
                Inl e \<Rightarrow>
                  \<lparr>response = global_error_handler, spawned = [], state = s\<lparr>fs := f1\<rparr>\<rparr>
              | Inr f2 \<Rightarrow> stream_terraform [''init''] envDir (s\<lparr>fs := f2\<rparr>) evs)))"

text \<open>
  Plan, apply and destroy differ in the arguments of the command only: the guard is
  the session identifier and \<^verbatim>\<open>fs.existsSync(envDir)\<close>.
\<close>

definition api_terraform_plan ::
  "path \<Rightarrow> server_state \<Rightarrow> query \<Rightarrow> child_event list \<Rightarrow> outcome" where
  "api_terraform_plan dirname s q evs =
     (if \<not> present (q_sessionId q)
        then \<lparr>response = json_error 400 ''Session ID is required'', spawned = [], state = s\<rparr>
      else
        let envDir = path_join dirname [''environments'', param (q_sessionId q)];
            slash = ends_with_slash (param (q_sessionId q))
        in
        if \<not> existsSync (fs s) envDir slash
          then \<lparr>response = json_error 400 ''Environment directory not found'',
                spawned = [], state = s\<rparr>
        else stream_terraform [''plan'', ''-out=tfplan''] envDir s evs)"

definition api_terraform_apply ::
  "path \<Rightarrow> server_state \<Rightarrow> query \<Rightarrow> child_event list \<Rightarrow> outcome" where
  "api_terraform_apply dirname s q evs =
     (if \<not> present (q_sessionId q)
        then \<lparr>response = json_error 400 ''Session ID is required'', spawned = [], state = s\<rparr>
      else
        let envDir = path_join dirname [''environments'', param (q_sessionId q)];
            slash = ends_with_slash (param (q_sessionId q))
        in
        if \<not> existsSync (fs s) envDir slash
          then \<lparr>response = json_error 400 ''Environment directory not found'',
                spawned = [], state = s\<rparr>
        else stream_terraform [''apply'', ''-auto-approve'', ''tfplan''] envDir s evs)"

definition api_terraform_destroy ::
  "path \<Rightarrow> server_state \<Rightarrow> query \<Rightarrow> child_event list \<Rightarrow> outcome" where
  "api_terraform_destroy dirname s q evs =
     (if \<not> present (q_sessionId q)
        then \<lparr>response = json_error 400 ''Session ID is required'', spawned = [], state = s\<rparr>
      else
        let envDir = path_join dirname [''environments'', param (q_sessionId q)];
            slash = ends_with_slash (param (q_sessionId q))
        in
        if \<not> existsSync (fs s) envDir slash
          then \<lparr>response = json_error 400 ''Environment directory not found'',
                spawned = [], state = s\<rparr>
        else stream_terraform [''destroy'', ''-auto-approve''] envDir s evs)"

subsection \<open>\<^verbatim>\<open>GET /api/score/:sessionId\<close> and \<^verbatim>\<open>GET /api/status/:sessionId\<close>\<close>

text \<open>The route parameter \<^verbatim>\<open>sessionId\<close> is bound and not used.\<close>

definition api_score :: "path \<Rightarrow> server_state \<Rightarrow> string \<Rightarrow> response" where
  "api_score dirname s sessionId =
     (let envDir = path_join dirname [''environments'', ''dev''];
          scoreFilePath = path_join envDir [''score.yaml'']
      in if \<not> existsSync (fs s) scoreFilePath False
           then json_error 404 ''Score file not found''
         else case readFileSync (fs s) scoreFilePath of
                Inl e \<Rightarrow> json_error 500 (error_message e)
              | Inr fileContent \<Rightarrow> JsonResponse 200 (JObj [(''scoreFile'', JStr fileContent)]))"

definition api_status :: "server_state \<Rightarrow> string \<Rightarrow> response" where
  "api_status s sessionId =
     (case processes s sessionId of
        None \<Rightarrow> json_error 404 ''Session not found''
      | Some p \<Rightarrow>
          JsonResponse 200
            (JObj [(''status'', JStr (status p)), (''logs'', JArr (map JStr (logs p)))]))"

section \<open>Notions used in the statements\<close>

text \<open>\<open>contains text pat\<close>: the text \<open>pat\<close> occurs in \<open>text\<close>.\<close>

fun contains :: "string \<Rightarrow> string \<Rightarrow> bool" where
  "contains [] pat = (pat = [])"
| "contains (c # cs) pat = (prefix pat (c # cs) \<or> contains cs pat)"

text \<open>
  The descriptor of the end-to-end scenario, in the shape the server reads (the region
  is an attribute of \<^verbatim>\<open>environment\<close>), and the text expected for it.
\<close>

definition orders_descriptor :: jsval where
  "orders_descriptor =
     JObj [(''name'', JStr ''orders''),
           (''environment'', JObj [(''region'', JStr ''eu-west-1'')]),
           (''services'', JObj [(''database'', JBool True)])]"

definition orders_text :: string where
  \<open>orders_text = lines_text
    [''{'',
     ''  "apiVersion": "score.dev/v1b1",'',
     ''  "metadata": {'',
     ''    "name": "orders"'',
     ''  },'',
     ''  "spec": {'',
     ''    "environment": {'',
     ''      "type": "web",'',
     ''      "executionEnvironment": "aws",'',
     ''      "region": "eu-west-1"'',
     ''    },'',
     ''    "services": {'',
     ''      "database": {'',
     ''        "type": "postgres",'',
     ''        "properties": {'',
     ''          "size": "small"'',
     ''        }'',
     ''      }'',
     ''    }'',
     ''  }'',
     ''}'']\<close>

text \<open>The \<^verbatim>\<open>spec.services\<close> object of a score configuration.\<close>

definition rendered_services :: "jsval \<Rightarrow> jsval" where
  "rendered_services scoreConfig = get_prop (get_prop scoreConfig ''spec'') ''services''"

text \<open>
  The rendered score configuration, piece by piece. \<open>fragment_text key ty\<close> is the
  text of one service fragment inside the \<^verbatim>\<open>services\<close> object; \<open>services_text\<close> is the
  text of the \<^verbatim>\<open>services\<close> object, given which of the three services are requested;
  \<open>score_head\<close> is the text up to the \<^verbatim>\<open>services\<close> object and \<open>score_tail\<close> the text
  after it.
\<close>

definition fragment_text :: "string \<Rightarrow> string \<Rightarrow> string" where
  \<open>fragment_text key ty = lines_text
     [''      "'' @ key @ ''": {'',
      ''        "type": "'' @ ty @ ''",'',
      ''        "properties": {'',
      ''          "size": "small"'',
      ''        }'',
      ''      }'']\<close>

definition services_text :: "bool \<Rightarrow> bool \<Rightarrow> bool \<Rightarrow> string" where
  "services_text database cache queue =
     (let fragments =
            (if database then [fragment_text ''database'' ''postgres''] else [])
            @ (if cache then [fragment_text ''cache'' ''redis''] else [])
            @ (if queue then [fragment_text ''queue'' ''rabbitmq''] else [])
      in if fragments = [] then ''{}''
         else lines_text [''{'', join_with ('','' @ [CHR 0x0A]) fragments, ''    }''])"

text \<open>
  The lines of the \<^verbatim>\<open>environment\<close> object: \<^verbatim>\<open>type\<close>, \<^verbatim>\<open>executionEnvironment\<close> and, unless it is
  \<^verbatim>\<open>undefined\<close>, \<^verbatim>\<open>region\<close>; then the lines of the text before the \<^verbatim>\<open>services\<close> object.
\<close>

definition environment_lines :: "jsval \<Rightarrow> jsval \<Rightarrow> jsval \<Rightarrow> string list" where
  \<open>environment_lines ty executionEnvironment region =
     [''      "type": '' @ stringify 6 ty @ '','',
      ''      "executionEnvironment": '' @ stringify 6 executionEnvironment
        @ (if region = JUndefined then [] else '','')]
     @ (if region = JUndefined then [] else [''      "region": '' @ stringify 6 region])\<close>

definition head_lines :: "jsval \<Rightarrow> jsval \<Rightarrow> jsval \<Rightarrow> jsval \<Rightarrow> string list" where
  \<open>head_lines name ty executionEnvironment region =
     [''{'',
      ''  "apiVersion": "score.dev/v1b1",'',
      ''  "metadata": {'',
      ''    "name": '' @ stringify 4 name,
      ''  },'',
      ''  "spec": {'',
      ''    "environment": {'']
     @ environment_lines ty executionEnvironment region
     @ [''    },'']\<close>

definition score_head :: "jsval \<Rightarrow> jsval \<Rightarrow> jsval \<Rightarrow> jsval \<Rightarrow> string" where
  \<open>score_head name ty executionEnvironment region =
     lines_text (head_lines name ty executionEnvironment region @ [''    "services": ''])\<close>

definition score_tail :: string where
  "score_tail = lines_text ['''', ''  }'', ''}'']"

text \<open>Whether the descriptor requests a service: \<^verbatim>\<open>services.key\<close> is truthy.\<close>

definition requested :: "jsval \<Rightarrow> string \<Rightarrow> bool" where
  "requested config key = truthy (get_prop (get_prop config ''services'') key)"

text \<open>
  The environment values a descriptor is rendered with, and the text it is rendered to:
  head, \<^verbatim>\<open>services\<close> object, tail.
\<close>

definition rendered_type :: "jsval \<Rightarrow> jsval" where
  "rendered_type config = or_else (get_prop (get_prop config ''environment'') ''type'') (JStr ''web'')"

definition rendered_executionEnvironment :: "jsval \<Rightarrow> jsval" where
  "rendered_executionEnvironment config =
     or_else (get_prop (get_prop config ''environment'') ''executionEnvironment'') (JStr ''aws'')"

definition rendered_region :: "jsval \<Rightarrow> jsval" where
  "rendered_region config = get_prop (get_prop config ''environment'') ''region''"

definition rendered_text :: "jsval \<Rightarrow> string" where
  "rendered_text config =
     score_head (get_prop config ''name'') (rendered_type config)
       (rendered_executionEnvironment config) (rendered_region config)
     @ services_text (requested config ''database'') (requested config ''cache'')
         (requested config ''queue'')
     @ score_tail"

text \<open>
  The lines of a text, and the line that opens the fragment of a service inside the
  \<^verbatim>\<open>services\<close> object.
\<close>

fun text_lines :: "string \<Rightarrow> string list" where
  "text_lines [] = [[]]"
| "text_lines (c # cs) =
     (if c = CHR 0x0A then [] # text_lines cs
      else case text_lines cs of
             [] \<Rightarrow> [[c]]
           | (l # ls) \<Rightarrow> (c # l) # ls)"

definition key_line :: "string \<Rightarrow> string" where
  \<open>key_line key = ''      "'' @ key @ ''": {''\<close>

text \<open>
  Notions about the events of a child process: an event that settles the promise of
  the supervisor, the output chunks an event carries, and the standard-error text
  accumulated over a list of events.
\<close>

fun settles :: "child_event \<Rightarrow> bool" where
  "settles (Close code) = True"
| "settles (SpawnError message) = True"
| "settles e = False"

fun output_chunks :: "child_event \<Rightarrow> string list" where
  "output_chunks (Stdout message) = [message]"
| "output_chunks (Stderr message) = [message]"
| "output_chunks e = []"

fun stderr_chunk :: "child_event \<Rightarrow> string" where
  "stderr_chunk (Stderr message) = message"
| "stderr_chunk e = []"

definition stderr_text :: "child_event list \<Rightarrow> string" where
  "stderr_text evs = concat (map stderr_chunk evs)"

definition log_events :: "child_event list \<Rightarrow> sse_event list" where
  "log_events evs = map LogEvent (concat (map output_chunks evs))"

fun is_terminal :: "sse_event \<Rightarrow> bool" where
  "is_terminal (LogEvent message) = False"
| "is_terminal e = True"

fun terminal_event :: "settlement \<Rightarrow> sse_event" where
  "terminal_event Resolved = StatusEvent ''completed''"
| "terminal_event (Rejected message) = ErrorEvent message"

definition open_feed :: sse_response where
  "open_feed = \<lparr>written = [], ended = False\<rparr>"

definition settlement_of :: "string \<Rightarrow> child_event \<Rightarrow> settlement" where
  "settlement_of err e =
     (case e of
        Close code \<Rightarrow>
          (if code = Some 0 then Resolved
           else Rejected (if err \<noteq> [] then err else ''Process exited with code '' @ show_code code))
      | SpawnError message \<Rightarrow> Rejected message
      | _ \<Rightarrow> Resolved)"

text \<open>Express dispatches a lifecycle request to one of the four handlers.\<close>

datatype lifecycle_op = Init | Plan | Apply | Destroy

fun lifecycle ::
  "lifecycle_op \<Rightarrow> path \<Rightarrow> server_state \<Rightarrow> query \<Rightarrow> child_event list \<Rightarrow> outcome" where
  "lifecycle Init = api_terraform_init"
| "lifecycle Plan = api_terraform_plan"
| "lifecycle Apply = api_terraform_apply"
| "lifecycle Destroy = api_terraform_destroy"

text \<open>The directory of the server (\<^verbatim>\<open>__dirname\<close>) in the examples.\<close>

definition example_dirname :: path where
  "example_dirname = [''srv'', ''server'']"


text \<open>
  The requests the server handles, and the state a request leaves behind. The two
  lookups change nothing.
\<close>

datatype request =
    Generate jsval
  | Lifecycle lifecycle_op query "child_event list"
  | Score string
  | Status string

fun serve :: "path \<Rightarrow> server_state \<Rightarrow> request \<Rightarrow> server_state" where
  "serve dirname s (Generate body) = snd (api_generate dirname s body)"
| "serve dirname s (Lifecycle op q evs) = state (lifecycle op dirname s q evs)"
| "serve dirname s (Score sessionId) = s"
| "serve dirname s (Status sessionId) = s"

text \<open>
  The run of the external tool fails: the first event that settles the promise is a
  close with a code other than 0, or an error event (the tool could not be spawned).
\<close>

fun fails :: "child_event list \<Rightarrow> bool" where
  "fails [] = False"
| "fails (Close code # evs) = (code \<noteq> Some 0)"
| "fails (SpawnError message # evs) = True"
| "fails (Stdout message # evs) = fails evs"
| "fails (Stderr message # evs) = fails evs"

text \<open>
  A file system in which the directory of session \<^verbatim>\<open>s1\<close> exists and is empty, and a
  server state over it with an empty \<^verbatim>\<open>processes\<close> map.
\<close>

definition example_fs :: filesystem where
  "example_fs =
     map_of [([], Dir), ([''srv''], Dir), ([''srv'', ''server''], Dir),
             ([''srv'', ''server'', ''environments''], Dir),
             ([''srv'', ''server'', ''environments'', ''s1''], Dir)]"

definition example_state :: server_state where
  "example_state = \<lparr>fs = example_fs, cwd = [''srv'', ''server''], processes = Map.empty\<rparr>"

fun status_code :: "response \<Rightarrow> nat" where
  "status_code (JsonResponse code body) = code"
| "status_code (EventStream ws e) = 200"

fun is_stream :: "response \<Rightarrow> bool" where
  "is_stream (EventStream ws e) = True"
| "is_stream (JsonResponse code body) = False"

text \<open>The regions the form offers (\<^verbatim>\<open>AWS_REGIONS\<close> in \<^verbatim>\<open>ApplicationForm.tsx\<close>).\<close>

definition AWS_REGIONS :: "string list" where
  "AWS_REGIONS =
     [''us-east-1'', ''us-east-2'', ''us-west-1'', ''us-west-2'', ''eu-west-1'', ''eu-west-2'',
      ''eu-central-1'', ''ap-southeast-1'', ''ap-southeast-2'', ''ap-northeast-1'',
      ''ap-northeast-2'', ''sa-east-1'']"

text \<open>Two descriptors: one whose region the form does not offer, one with an empty name.\<close>

definition unlisted_region_descriptor :: jsval where
  "unlisted_region_descriptor =
     JObj [(''name'', JStr ''orders''),
           (''environment'', JObj [(''region'', JStr ''not-a-region'')]),
           (''services'', JObj [])]"

definition unnamed_descriptor :: jsval where
  "unnamed_descriptor =
     JObj [(''name'', JStr []),
           (''environment'', JObj [(''region'', JStr ''eu-west-1'')]),
           (''services'', JObj [])]"

text \<open>Where the init endpoint writes \<^verbatim>\<open>main.tf\<close>.\<close>

definition main_tf_path :: "path \<Rightarrow> query \<Rightarrow> path" where
  "main_tf_path dirname q =
     path_join (path_join dirname [''environments'', param (q_sessionId q)]) [''main.tf'']"


text \<open>The opening lines of the resources that \<^verbatim>\<open>main.tf\<close> always declares.\<close>

definition main_tf_resources :: "string list" where
  \<open>main_tf_resources =
     [''module "vpc" {'', ''module "eks" {'', ''resource "aws_db_instance" "main" {'',
      ''resource "kubernetes_deployment" "app" {'']\<close>


definition session_dir :: "path \<Rightarrow> string \<Rightarrow> path" where
  "session_dir dirname sid = path_join dirname [''environments'', sid]"



definition untouched_inside :: "path \<Rightarrow> filesystem \<Rightarrow> filesystem \<Rightarrow> bool" where
  "untouched_inside dir f f' = (\<forall>p. prefix dir p \<longrightarrow> f' p = f p)"



section \<open>The score configuration: service fragments\<close>

lemma spread_and_then:
  "spread (and_then v (JObj ps)) = (if truthy v then ps else [])"
  by (cases v) (simp_all add: and_then_def)

lemma rendered_services_eq:
  "rendered_services (scoreConfig_literal name environment services) =
     JObj ((if truthy (get_prop services ''database'')
              then [(''database'', service_fragment ''postgres'')] else [])
           @ (if truthy (get_prop services ''cache'')
                then [(''cache'', service_fragment ''redis'')] else [])
           @ (if truthy (get_prop services ''queue'')
                then [(''queue'', service_fragment ''rabbitmq'')] else []))"
  by (simp add: rendered_services_def scoreConfig_literal_def spread_and_then)

lemma truthy_defined: "truthy v \<Longrightarrow> v \<noteq> JUndefined"
  by (cases v) simp_all

lemma or_else_defined: "or_else v (JStr d) \<noteq> JUndefined"
  by (cases v) (simp_all add: or_else_def)

lemma stringify_scoreConfig:
  assumes "name \<noteq> JUndefined"
  shows "stringify 0 (scoreConfig_literal name environment services)
     = score_head name (or_else (get_prop environment ''type'') (JStr ''web''))
         (or_else (get_prop environment ''executionEnvironment'') (JStr ''aws''))
         (get_prop environment ''region'')
       @ stringify 4 (rendered_services (scoreConfig_literal name environment services))
       @ score_tail"
  using assms or_else_defined [of "get_prop environment ''type''" "''web''"]
    or_else_defined [of "get_prop environment ''executionEnvironment''" "''aws''"]
  by (simp add: scoreConfig_literal_def score_head_def head_lines_def environment_lines_def
      score_tail_def rendered_services_def lines_text_def json_quote_def escape_char_def
      spaces_def numeral_eq_Suc)

lemma truthy_prop_not_nullish: "truthy (get_prop v k) \<Longrightarrow> \<not> nullish v"
  by (cases v) simp_all

lemma stringify_services:
  "stringify 4 (JObj ((if database then [(''database'', service_fragment ''postgres'')] else [])
                      @ (if cache then [(''cache'', service_fragment ''redis'')] else [])
                      @ (if queue then [(''queue'', service_fragment ''rabbitmq'')] else [])))
     = services_text database cache queue"
  by (cases database; cases cache; cases queue)
     (simp_all add: services_text_def fragment_text_def service_fragment_def lines_text_def
        json_quote_def escape_char_def spaces_def numeral_eq_Suc)

lemma generateScoreYaml_rendered_text:
  assumes "truthy (get_prop config ''name'')"
    and "truthy (get_prop config ''environment'')"
    and "truthy (get_prop config ''services'')"
  shows "generateScoreYaml config = Inr (rendered_text config)"
proof -
  let ?scoreConfig = "scoreConfig_literal (get_prop config ''name'')
      (get_prop config ''environment'') (get_prop config ''services'')"
  have render: "generateScoreYaml config = Inr (stringify 0 ?scoreConfig)"
    using assms truthy_prop_not_nullish [OF assms(1)] by (simp add: generateScoreYaml_def)
  have head: "stringify 0 ?scoreConfig
      = score_head (get_prop config ''name'') (rendered_type config)
          (rendered_executionEnvironment config) (rendered_region config)
        @ stringify 4 (rendered_services ?scoreConfig) @ score_tail"
    unfolding rendered_type_def rendered_executionEnvironment_def rendered_region_def
    using truthy_defined [OF assms(1)] by (rule stringify_scoreConfig)
  have services: "stringify 4 (rendered_services ?scoreConfig)
      = services_text (requested config ''database'') (requested config ''cache'')
          (requested config ''queue'')"
    unfolding rendered_services_eq requested_def by (rule stringify_services)
  show ?thesis
    by (simp only: render head services rendered_text_def)
qed

lemma database_fragment_iff:
  "contains (services_text database cache queue) (fragment_text ''database'' ''postgres'')
     = database"
  by (cases database; cases cache; cases queue)
     (simp_all add: services_text_def fragment_text_def lines_text_def)

lemma cache_fragment_iff:
  "contains (services_text database cache queue) (fragment_text ''cache'' ''redis'') = cache"
  by (cases database; cases cache; cases queue)
     (simp_all add: services_text_def fragment_text_def lines_text_def)

lemma queue_fragment_iff:
  "contains (services_text database cache queue) (fragment_text ''queue'' ''rabbitmq'') = queue"
  by (cases database; cases cache; cases queue)
     (simp_all add: services_text_def fragment_text_def lines_text_def)

lemma contains_Nil [simp]: "contains str []"
  by (cases str) simp_all

lemma contains_self: "contains str str"
  by (cases str) simp_all

lemma contains_append_right: "contains b pat \<Longrightarrow> contains (a @ b) pat"
  by (induction a) simp_all

lemma contains_append_left: "contains a pat \<Longrightarrow> contains (a @ b) pat"
proof (induction a)
  case Nil
  then show ?case by simp
next
  case (Cons c cs)
  from Cons.prems have "prefix pat (c # cs) \<or> contains cs pat" by simp
  then show ?case
  proof
    assume "prefix pat (c # cs)"
    then have "prefix pat ((c # cs) @ b)" by (rule prefix_prefix)
    then show ?thesis by simp
  next
    assume "contains cs pat"
    then show ?thesis using Cons.IH by simp
  qed
qed

lemma contains_middle: "contains b pat \<Longrightarrow> contains (a @ b @ c) pat"
  by (simp add: contains_append_left contains_append_right)

lemma text_lines_line:
  "CHR 0x0A \<notin> set l \<Longrightarrow> text_lines (l @ CHR 0x0A # rest) = l # text_lines rest"
  by (induction l) auto

lemma text_lines_joined:
  "ls \<noteq> [] \<Longrightarrow> \<forall>l \<in> set ls. CHR 0x0A \<notin> set l \<Longrightarrow>
     text_lines (join_with [CHR 0x0A] ls @ CHR 0x0A # rest) = ls @ text_lines rest"
proof (induction "[CHR 0x0A]" ls rule: join_with.induct)
  case 1
  then show ?case by simp
next
  case (2 x)
  then show ?case by (simp add: text_lines_line)
next
  case (3 x y ys)
  then show ?case by (simp add: text_lines_line)
qed

lemma digit_char_not_newline: "d < 16 \<Longrightarrow> digit_char d \<noteq> CHR 0x0A"
proof -
  assume "d < 16"
  then have "digit_char d \<in> set ''0123456789abcdef''"
    unfolding digit_char_def by (intro nth_mem) simp
  then show ?thesis by auto
qed

lemma escape_char_no_newline: "CHR 0x0A \<notin> set (escape_char c)"
proof -
  have "(of_char c :: nat) < 32 \<Longrightarrow> digit_char (of_char c div 16) \<noteq> CHR 0x0A"
    by (rule digit_char_not_newline) simp
  moreover have "digit_char (of_char c mod 16) \<noteq> CHR 0x0A"
    by (rule digit_char_not_newline) simp
  ultimately show ?thesis by (auto simp: escape_char_def)
qed

lemma json_quote_no_newline: "CHR 0x0A \<notin> set (json_quote s)"
  using escape_char_no_newline by (auto simp: json_quote_def)

lemma join_with_snoc:
  "ls \<noteq> [] \<Longrightarrow> join_with sep (ls @ [x]) = join_with sep ls @ sep @ x"
  by (induction sep ls rule: join_with.induct) simp_all

lemma head_lines_no_newline:
  "\<forall>l \<in> set (head_lines (JStr n) (JStr t) (JStr x) (JStr r)). CHR 0x0A \<notin> set l"
  using json_quote_no_newline
  by (simp add: head_lines_def environment_lines_def)

lemma head_lines_keys:
  \<open>key_line ''database'' \<notin> set (head_lines (JStr n) (JStr t) (JStr x) (JStr r))\<close>
  \<open>key_line ''cache'' \<notin> set (head_lines (JStr n) (JStr t) (JStr x) (JStr r))\<close>
  \<open>key_line ''queue'' \<notin> set (head_lines (JStr n) (JStr t) (JStr x) (JStr r))\<close>
  by (simp_all add: head_lines_def environment_lines_def key_line_def)

lemma services_lines_database:
  \<open>(key_line ''database''
       \<in> set (text_lines (''    "services": '' @ services_text database cache queue @ score_tail)))
     = database\<close>
  by (cases database; cases cache; cases queue)
     (simp_all add: services_text_def fragment_text_def score_tail_def lines_text_def
        key_line_def)

lemma services_lines_cache:
  \<open>(key_line ''cache''
       \<in> set (text_lines (''    "services": '' @ services_text database cache queue @ score_tail)))
     = cache\<close>
  by (cases database; cases cache; cases queue)
     (simp_all add: services_text_def fragment_text_def score_tail_def lines_text_def
        key_line_def)

lemma services_lines_queue:
  \<open>(key_line ''queue''
       \<in> set (text_lines (''    "services": '' @ services_text database cache queue @ score_tail)))
     = queue\<close>
  by (cases database; cases cache; cases queue)
     (simp_all add: services_text_def fragment_text_def score_tail_def lines_text_def
        key_line_def)

lemma rendered_lines_strings:
  assumes "get_prop config ''name'' = JStr n"
    and "rendered_type config = JStr t"
    and "rendered_executionEnvironment config = JStr x"
    and "rendered_region config = JStr r"
  shows \<open>text_lines (rendered_text config)
     = head_lines (JStr n) (JStr t) (JStr x) (JStr r)
       @ text_lines (''    "services": ''
                     @ services_text (requested config ''database'') (requested config ''cache'')
                         (requested config ''queue'')
                     @ score_tail)\<close>
proof -
  let ?hl = "head_lines (JStr n) (JStr t) (JStr x) (JStr r)"
  have ne: "?hl \<noteq> []"
    by (simp add: head_lines_def)
  have "rendered_text config
      = join_with [CHR 0x0A] ?hl
        @ CHR 0x0A # (''    \"services\": ''
            @ services_text (requested config ''database'') (requested config ''cache'')
                (requested config ''queue'')
            @ score_tail)"
    using assms join_with_snoc [OF ne, of "[CHR 0x0A]"]
    by (simp add: rendered_text_def score_head_def lines_text_def)
  then show ?thesis
    using text_lines_joined [OF ne head_lines_no_newline] by simp
qed

lemma orders_rendered: "generateScoreYaml orders_descriptor = Inr orders_text"
  by (simp add: generateScoreYaml_def orders_descriptor_def scoreConfig_literal_def
      orders_text_def service_fragment_def or_else_def and_then_def lines_text_def
      json_quote_def escape_char_def spaces_def numeral_eq_Suc)

lemma orders_region: \<open>contains orders_text ''"region": "eu-west-1"''\<close>
  by (simp add: orders_text_def lines_text_def)

lemma orders_key: \<open>contains orders_text ''"database": {''\<close>
  by (simp add: orders_text_def lines_text_def)

lemma orders_database: "contains orders_text (fragment_text ''database'' ''postgres'')"
  by (simp add: orders_text_def fragment_text_def lines_text_def)

lemma orders_no_cache: "\<not> contains orders_text ''cache''"
  by (simp add: orders_text_def lines_text_def)

lemma orders_no_queue: "\<not> contains orders_text ''queue''"
  by (simp add: orders_text_def lines_text_def)

text \<open>
  Claim C9. The descriptor with name \<^verbatim>\<open>orders\<close>, region \<^verbatim>\<open>eu-west-1\<close> and the one
  service \<^verbatim>\<open>database: true\<close> renders to a text that holds the region value
  \<^verbatim>\<open>eu-west-1\<close> and the database fragment, and in which neither \<^verbatim>\<open>cache\<close> nor
  \<^verbatim>\<open>queue\<close> occurs. In general, for a descriptor that passes the check of
  \<^verbatim>\<open>generateScoreYaml\<close>, the rendered text is \<open>rendered_text\<close>: the head lines with
  the name and the environment values, the text of the \<^verbatim>\<open>services\<close> object, and the
  closing lines. The text of the \<^verbatim>\<open>services\<close> object depends only on which of
  \<^verbatim>\<open>database\<close>, \<^verbatim>\<open>cache\<close> and \<^verbatim>\<open>queue\<close> the descriptor requests (its
  \<^verbatim>\<open>services.key\<close> is truthy), and it contains the fragment of a service exactly when
  that service is requested; a requested fragment so occurs in the rendered text. When
  the name and the environment values rendered are strings, the opening line of the
  fragment of a service is a line of the rendered text exactly when that service is
  requested.
\<close>

theorem C9_service_fragments:
  \<open>generateScoreYaml orders_descriptor = Inr orders_text
   \<and> contains orders_text ''"region": "eu-west-1"''
   \<and> contains orders_text ''"database": {''
   \<and> contains orders_text (fragment_text ''database'' ''postgres'')
   \<and> \<not> contains orders_text ''cache''
   \<and> \<not> contains orders_text ''queue''
   \<and> (truthy (get_prop config ''name'') \<and> truthy (get_prop config ''environment'')
        \<and> truthy (get_prop config ''services'')
      \<longrightarrow> generateScoreYaml config = Inr (rendered_text config)
          \<and> contains (services_text (requested config ''database'') (requested config ''cache'')
                         (requested config ''queue''))
                (fragment_text ''database'' ''postgres'')
              = requested config ''database''
          \<and> contains (services_text (requested config ''database'') (requested config ''cache'')
                         (requested config ''queue''))
                (fragment_text ''cache'' ''redis'')
              = requested config ''cache''
          \<and> contains (services_text (requested config ''database'') (requested config ''cache'')
                         (requested config ''queue''))
                (fragment_text ''queue'' ''rabbitmq'')
              = requested config ''queue''
          \<and> (requested config ''database'' \<longrightarrow>
                contains (rendered_text config) (fragment_text ''database'' ''postgres''))
          \<and> (requested config ''cache'' \<longrightarrow>
                contains (rendered_text config) (fragment_text ''cache'' ''redis''))
          \<and> (requested config ''queue'' \<longrightarrow>
                contains (rendered_text config) (fragment_text ''queue'' ''rabbitmq''))
          \<and> (get_prop config ''name'' = JStr n \<and> rendered_type config = JStr t
                \<and> rendered_executionEnvironment config = JStr x
                \<and> rendered_region config = JStr r
              \<longrightarrow> (key_line ''database'' \<in> set (text_lines (rendered_text config)))
                    = requested config ''database''
                  \<and> (key_line ''cache'' \<in> set (text_lines (rendered_text config)))
                    = requested config ''cache''
                  \<and> (key_line ''queue'' \<in> set (text_lines (rendered_text config)))
                    = requested config ''queue''))\<close>
proof -
  let ?services = "services_text (requested config ''database'') (requested config ''cache'')
      (requested config ''queue'')"
  have d: "contains ?services (fragment_text ''database'' ''postgres'')
      = requested config ''database''"
    by (rule database_fragment_iff)
  have c: "contains ?services (fragment_text ''cache'' ''redis'') = requested config ''cache''"
    by (rule cache_fragment_iff)
  have q: "contains ?services (fragment_text ''queue'' ''rabbitmq'') = requested config ''queue''"
    by (rule queue_fragment_iff)
  have whole: "contains (rendered_text config) pat" if "contains ?services pat" for pat
    unfolding rendered_text_def using that by (rule contains_middle)
  have wd: "requested config ''database'' \<longrightarrow>
      contains (rendered_text config) (fragment_text ''database'' ''postgres'')"
    using d whole by blast
  have wc: "requested config ''cache'' \<longrightarrow>
      contains (rendered_text config) (fragment_text ''cache'' ''redis'')"
    using c whole by blast
  have wq: "requested config ''queue'' \<longrightarrow>
      contains (rendered_text config) (fragment_text ''queue'' ''rabbitmq'')"
    using q whole by blast
  have strings: "(key_line ''database'' \<in> set (text_lines (rendered_text config)))
        = requested config ''database''
      \<and> (key_line ''cache'' \<in> set (text_lines (rendered_text config)))
        = requested config ''cache''
      \<and> (key_line ''queue'' \<in> set (text_lines (rendered_text config)))
        = requested config ''queue''"
    if "get_prop config ''name'' = JStr n" "rendered_type config = JStr t"
      "rendered_executionEnvironment config = JStr x" "rendered_region config = JStr r"
    by (simp only: rendered_lines_strings [OF that] set_append Un_iff head_lines_keys
        services_lines_database services_lines_cache services_lines_queue simp_thms)
  have general: "generateScoreYaml config = Inr (rendered_text config)"
    if "truthy (get_prop config ''name'')" "truthy (get_prop config ''environment'')"
       "truthy (get_prop config ''services'')"
    using that by (rule generateScoreYaml_rendered_text)
  show ?thesis
    using orders_rendered orders_region orders_key orders_database orders_no_cache
      orders_no_queue general d c q wd wc wq strings
    by blast
qed

theorem C9_service_fragments_witness:
  "truthy (get_prop orders_descriptor ''name'')
   \<and> truthy (get_prop orders_descriptor ''environment'')
   \<and> truthy (get_prop orders_descriptor ''services'')
   \<and> get_prop orders_descriptor ''name'' = JStr ''orders''
   \<and> rendered_type orders_descriptor = JStr ''web''
   \<and> rendered_executionEnvironment orders_descriptor = JStr ''aws''
   \<and> rendered_region orders_descriptor = JStr ''eu-west-1''
   \<and> requested orders_descriptor ''database''
   \<and> \<not> requested orders_descriptor ''cache''
   \<and> \<not> requested orders_descriptor ''queue''
   \<and> generateScoreYaml orders_descriptor = Inr (rendered_text orders_descriptor)
   \<and> contains (rendered_text orders_descriptor) (fragment_text ''database'' ''postgres'')
   \<and> key_line ''database'' \<in> set (text_lines (rendered_text orders_descriptor))
   \<and> key_line ''cache'' \<notin> set (text_lines (rendered_text orders_descriptor))
   \<and> key_line ''queue'' \<notin> set (text_lines (rendered_text orders_descriptor))"
proof -
  have t: "truthy (get_prop orders_descriptor ''name'')
     \<and> truthy (get_prop orders_descriptor ''environment'')
     \<and> truthy (get_prop orders_descriptor ''services'')"
    by (simp add: orders_descriptor_def)
  have s: "get_prop orders_descriptor ''name'' = JStr ''orders''
     \<and> rendered_type orders_descriptor = JStr ''web''
     \<and> rendered_executionEnvironment orders_descriptor = JStr ''aws''
     \<and> rendered_region orders_descriptor = JStr ''eu-west-1''"
    by (simp add: orders_descriptor_def rendered_type_def rendered_executionEnvironment_def
        rendered_region_def or_else_def)
  have r: "requested orders_descriptor ''database''
     \<and> \<not> requested orders_descriptor ''cache''
     \<and> \<not> requested orders_descriptor ''queue''"
    by (simp add: requested_def orders_descriptor_def)
  from C9_service_fragments [of orders_descriptor "''orders''" "''web''" "''aws''"
      "''eu-west-1''"] t s r
  show ?thesis by blast
qed

section \<open>The process supervisor\<close>

lemma run_snoc:
  "runCommandWithStream k r (evs @ [e]) = on_event k (runCommandWithStream k r evs) e"
  by (simp add: runCommandWithStream_def)

lemma run_pending:
  "\<not> list_ex settles evs \<Longrightarrow>
     settled (runCommandWithStream k r evs) = None
     \<and> error_text (runCommandWithStream k r evs) = stderr_text evs"
proof (induction evs rule: rev_induct)
  case Nil
  then show ?case by (simp add: runCommandWithStream_def stderr_text_def)
next
  case (snoc e evs)
  then show ?case by (cases e) (simp_all add: run_snoc stderr_text_def)
qed

lemma settled_stays:
  "settled st = Some x \<Longrightarrow> settled (foldl (on_event k) st evs) = Some x"
proof (induction evs arbitrary: st)
  case Nil
  then show ?case by simp
next
  case (Cons e evs)
  have "settled (on_event k st e) = Some x"
    using Cons.prems by (cases e) (simp_all add: settle_def)
  then show ?case using Cons.IH by simp
qed

lemma run_append:
  "runCommandWithStream k r (pre @ post) = foldl (on_event k) (runCommandWithStream k r pre) post"
  by (simp add: runCommandWithStream_def)

lemma run_settled:
  assumes "\<not> list_ex settles pre" and "settles e"
  shows "settled (runCommandWithStream k r (pre @ e # post)) = Some (settlement_of (stderr_text pre) e)"
proof -
  let ?st = "runCommandWithStream k r pre"
  have p: "settled ?st = None" "error_text ?st = stderr_text pre"
    using run_pending [OF assms(1)] by simp_all
  have "settled (on_event k ?st e) = Some (settlement_of (stderr_text pre) e)"
    using p assms(2) by (cases e) (simp_all add: settle_def settlement_of_def)
  then show ?thesis
    using settled_stays [of "on_event k ?st e"] by (simp add: run_append)
qed

lemma split_first_settle:
  "list_ex settles evs \<Longrightarrow> \<exists>pre e post. evs = pre @ e # post \<and> \<not> list_ex settles pre \<and> settles e"
proof (induction evs)
  case Nil
  then show ?case by simp
next
  case (Cons a evs)
  show ?case
  proof (cases "settles a")
    case True
    then have "a # evs = [] @ a # evs \<and> \<not> list_ex settles [] \<and> settles a" by simp
    then show ?thesis by blast
  next
    case False
    with Cons obtain pre e post where "evs = pre @ e # post" "\<not> list_ex settles pre" "settles e"
      by auto
    then have "a # evs = (a # pre) @ e # post \<and> \<not> list_ex settles (a # pre) \<and> settles e"
      using False by simp
    then show ?thesis by blast
  qed
qed

lemma settlement_of_Resolved:
  "settles e \<Longrightarrow> (settlement_of err e = Resolved) = (e = Close (Some 0))"
  by (cases e) (simp_all add: settlement_of_def)

text \<open>
  Claim C5, as the code has it. The promise of \<^verbatim>\<open>runCommandWithStream\<close> resolves
  exactly when the first settling event of the child is a close with code 0. With no
  close and no error event it stays pending. A first close with another code (or with
  none) rejects with an error whose message is the concatenated standard-error text
  when that text is not empty, and \<^verbatim>\<open>Process exited with code <code>\<close> otherwise; a
  first error event rejects with the error of the event.
\<close>

theorem C5_supervisor_settlement:
  "(settled (runCommandWithStream k r evs) = Some Resolved
      \<longleftrightarrow> (\<exists>pre post. evs = pre @ Close (Some 0) # post \<and> \<not> list_ex settles pre))
   \<and> (\<not> list_ex settles evs \<longrightarrow> settled (runCommandWithStream k r evs) = None)
   \<and> (\<not> list_ex settles pre \<and> code \<noteq> Some 0 \<longrightarrow>
        settled (runCommandWithStream k r (pre @ Close code # post))
        = Some (Rejected (if stderr_text pre \<noteq> [] then stderr_text pre
                          else ''Process exited with code '' @ show_code code)))
   \<and> (\<not> list_ex settles pre \<longrightarrow>
        settled (runCommandWithStream k r (pre @ SpawnError message # post))
        = Some (Rejected message))"
proof -
  have a: "settled (runCommandWithStream k r evs) = Some Resolved
      \<longleftrightarrow> (\<exists>pre post. evs = pre @ Close (Some 0) # post \<and> \<not> list_ex settles pre)"
  proof
    assume res: "settled (runCommandWithStream k r evs) = Some Resolved"
    then have "list_ex settles evs"
      using run_pending [of evs k r] by auto
    then obtain pre e post where
      d: "evs = pre @ e # post" "\<not> list_ex settles pre" "settles e"
      using split_first_settle by blast
    then have "settlement_of (stderr_text pre) e = Resolved"
      using res run_settled [of pre e k r post] by simp
    then have "e = Close (Some 0)"
      using d(3) settlement_of_Resolved by blast
    with d show "\<exists>pre post. evs = pre @ Close (Some 0) # post \<and> \<not> list_ex settles pre"
      by blast
  next
    assume "\<exists>pre post. evs = pre @ Close (Some 0) # post \<and> \<not> list_ex settles pre"
    then obtain pre post where "evs = pre @ Close (Some 0) # post" "\<not> list_ex settles pre"
      by blast
    then show "settled (runCommandWithStream k r evs) = Some Resolved"
      using run_settled [of pre "Close (Some 0)" k r post] by (simp add: settlement_of_def)
  qed
  have b: "\<not> list_ex settles evs \<longrightarrow> settled (runCommandWithStream k r evs) = None"
    using run_pending by blast
  have c: "\<not> list_ex settles pre \<and> code \<noteq> Some 0 \<longrightarrow>
        settled (runCommandWithStream k r (pre @ Close code # post))
        = Some (Rejected (if stderr_text pre \<noteq> [] then stderr_text pre
                          else ''Process exited with code '' @ show_code code))"
    using run_settled [of pre "Close code" k r post] by (simp add: settlement_of_def)
  have d: "\<not> list_ex settles pre \<longrightarrow>
        settled (runCommandWithStream k r (pre @ SpawnError message # post))
        = Some (Rejected message)"
    using run_settled [of pre "SpawnError message" k r post] by (simp add: settlement_of_def)
  from a b c d show ?thesis by blast
qed

theorem C5_supervisor_settlement_witness:
  "\<not> list_ex settles [Stdout ''plan'', Stderr ''bo'', Stderr ''om'']
   \<and> (Some 1 :: int option) \<noteq> Some 0
   \<and> settled (runCommandWithStream finish open_feed
        ([Stdout ''plan'', Stderr ''bo'', Stderr ''om''] @ Close (Some 1) # []))
      = Some (Rejected ''boom'')
   \<and> settled (runCommandWithStream finish open_feed
        ([Stdout ''plan'', Stderr ''bo'', Stderr ''om''] @ SpawnError ''spawn terraform ENOENT'' # []))
      = Some (Rejected ''spawn terraform ENOENT'')"
  using C5_supervisor_settlement [of finish open_feed "[]"
      "[Stdout ''plan'', Stderr ''bo'', Stderr ''om'']" "Some 1" "[]" "''spawn terraform ENOENT''"]
  by (simp add: stderr_text_def)

text \<open>
  Claim C5 as stated fails: a child that writes \<^verbatim>\<open>boom\<close> to standard error and exits
  with code 1 rejects with the message \<^verbatim>\<open>boom\<close>, in which the exit code does not
  occur.
\<close>

theorem C5_counterexample:
  "settled (runCommandWithStream finish open_feed [Stderr ''boom'', Close (Some 1)])
     = Some (Rejected ''boom'')
   \<and> \<not> contains ''boom'' (show_int 1)"
  by (simp add: runCommandWithStream_def settle_def open_feed_def res_write_def res_end_def
      show_int_def show_nat.simps digit_char_def)

section \<open>The event feed of a lifecycle operation\<close>

lemma feed_pending:
  "\<not> list_ex settles evs \<Longrightarrow>
     res (runCommandWithStream k open_feed evs) = \<lparr>written = log_events evs, ended = False\<rparr>"
proof (induction evs rule: rev_induct)
  case Nil
  then show ?case by (simp add: runCommandWithStream_def log_events_def open_feed_def)
next
  case (snoc e evs)
  then show ?case by (cases e) (simp_all add: run_snoc log_events_def res_write_def)
qed

lemma feed_closed_stays:
  "settled st \<noteq> None \<Longrightarrow> ended (res st) \<Longrightarrow> res (foldl (on_event k) st evs) = res st"
proof (induction evs arbitrary: st)
  case Nil
  then show ?case by simp
next
  case (Cons e evs)
  have "settled (on_event k st e) \<noteq> None \<and> ended (res (on_event k st e)) \<and> res (on_event k st e) = res st"
    using Cons.prems by (cases e) (auto simp: settle_def res_write_def)
  then show ?case using Cons.IH [of "on_event k st e"] Cons.prems by auto
qed

lemma feed_settled:
  assumes "\<not> list_ex settles pre" and "settles e"
  shows "res (runCommandWithStream finish open_feed (pre @ e # post))
         = \<lparr>written = log_events pre @ [terminal_event (settlement_of (stderr_text pre) e)], ended = True\<rparr>"
proof -
  let ?st = "runCommandWithStream finish open_feed pre"
  have p: "settled ?st = None" "error_text ?st = stderr_text pre"
    using run_pending [OF assms(1)] by simp_all
  have r: "res ?st = \<lparr>written = log_events pre, ended = False\<rparr>"
    using feed_pending [OF assms(1)] .
  have fin: "finish x \<lparr>written = ws, ended = False\<rparr> = \<lparr>written = ws @ [terminal_event x], ended = True\<rparr>" for x ws
    by (cases x) (simp_all add: res_write_def res_end_def)
  have s: "res (on_event finish ?st e)
           = \<lparr>written = log_events pre @ [terminal_event (settlement_of (stderr_text pre) e)], ended = True\<rparr>
         \<and> settled (on_event finish ?st e) \<noteq> None"
    using p r assms(2) by (cases e) (simp_all add: settle_def settlement_of_def fin)
  then show ?thesis
    using feed_closed_stays [of "on_event finish ?st e" finish post] by (simp add: run_append)
qed


lemma stream_terraform_response:
  "response (stream_terraform tf_args envDir s evs) = EventStream ws e \<Longrightarrow>
     ws = written (res (runCommandWithStream finish open_feed evs))
     \<and> e = ended (res (runCommandWithStream finish open_feed evs))"
  by (auto simp: stream_terraform_def global_error_handler_def sendResponse_def open_feed_def Let_def
      split: sum.splits)

lemma lifecycle_response:
  "response (lifecycle op dirname s q evs) = EventStream ws e \<Longrightarrow>
     ws = written (res (runCommandWithStream finish open_feed evs))
     \<and> e = ended (res (runCommandWithStream finish open_feed evs))"
  by (cases op)
     (auto simp: api_terraform_init_def api_terraform_plan_def api_terraform_apply_def
        api_terraform_destroy_def json_error_def global_error_handler_def sendResponse_def Let_def
        dest: stream_terraform_response split: if_splits sum.splits)

lemma filter_terminal_logs [simp]: "filter is_terminal (log_events evs) = []"
  by (simp add: log_events_def filter_map o_def)

lemma is_terminal_terminal_event [simp]: "is_terminal (terminal_event x)"
  by (cases x) simp_all

text \<open>
  Claim C6. When a lifecycle endpoint (init, plan, apply, destroy) answers with an event
  stream, the stream is ended exactly when the child closed or failed to spawn; an
  ended stream holds exactly one terminal event, it is the last event, and it is the
  \<^verbatim>\<open>completed\<close> status or the error of the settled promise; a stream that is not ended
  holds no terminal event.
\<close>

theorem C6_one_terminal_event:
  assumes "response (lifecycle op dirname s q evs) = EventStream ws e"
  shows "(e \<longleftrightarrow> list_ex settles evs)
     \<and> (e \<longrightarrow> length (filter is_terminal ws) = 1 \<and> is_terminal (last ws)
              \<and> (\<exists>x. settled (runCommandWithStream finish open_feed evs) = Some x
                      \<and> last ws = terminal_event x))
     \<and> (\<not> e \<longrightarrow> filter is_terminal ws = [])"
proof -
  let ?st = "runCommandWithStream finish open_feed evs"
  have we: "ws = written (res ?st)" "e = ended (res ?st)"
    using lifecycle_response [OF assms] by simp_all
  show ?thesis
  proof (cases "list_ex settles evs")
    case False
    then have "res ?st = \<lparr>written = log_events evs, ended = False\<rparr>"
      using feed_pending by blast
    with we False show ?thesis by simp
  next
    case True
    then obtain pre ev post where
      d: "evs = pre @ ev # post" "\<not> list_ex settles pre" "settles ev"
      using split_first_settle by blast
    let ?x = "settlement_of (stderr_text pre) ev"
    have "res ?st = \<lparr>written = log_events pre @ [terminal_event ?x], ended = True\<rparr>"
      using feed_settled [OF d(2,3)] d(1) by simp
    moreover have "settled ?st = Some ?x"
      using run_settled [OF d(2,3)] d(1) by simp
    ultimately show ?thesis using we True by simp
  qed
qed

theorem C6_one_terminal_event_witness:
  "response (lifecycle Plan example_dirname example_state
       \<lparr>q_sessionId = Some ''s1'', q_region = None\<rparr>
       [Stdout ''A'', Stderr ''B'', Stdout ''C'', Close (Some 1), Stdout ''late''])
     = EventStream [LogEvent ''A'', LogEvent ''B'', LogEvent ''C'', ErrorEvent ''B''] True
   \<and> length (filter is_terminal
        [LogEvent ''A'', LogEvent ''B'', LogEvent ''C'', ErrorEvent ''B'']) = 1"
proof -
  have r: "response (lifecycle Plan example_dirname example_state
       \<lparr>q_sessionId = Some ''s1'', q_region = None\<rparr>
       [Stdout ''A'', Stderr ''B'', Stdout ''C'', Close (Some 1), Stdout ''late''])
     = EventStream [LogEvent ''A'', LogEvent ''B'', LogEvent ''C'', ErrorEvent ''B''] True"
    by (simp add: api_terraform_plan_def example_dirname_def example_state_def example_fs_def
        path_join_def existsSync_def stream_terraform_def chdir_def runCommandWithStream_def
        settle_def Let_def res_write_def res_end_def)
  from C6_one_terminal_event [OF r] r show ?thesis by simp
qed

section \<open>The session store\<close>

lemma stream_terraform_processes:
  "processes (state (stream_terraform tf_args envDir s evs)) = processes s"
  by (auto simp: stream_terraform_def chdir_def Let_def split: sum.splits option.splits node.splits)

lemma lifecycle_processes:
  "processes (state (lifecycle op dirname s q evs)) = processes s"
  by (cases op)
     (auto simp: api_terraform_init_def api_terraform_plan_def api_terraform_apply_def
        api_terraform_destroy_def stream_terraform_processes Let_def split: sum.splits)

lemma api_generate_processes:
  "processes (snd (api_generate dirname s body)) = processes s"
  by (auto simp: api_generate_def Let_def split: sum.splits)

lemma serve_processes: "processes (serve dirname s req) = processes s"
  by (cases req) (simp_all add: lifecycle_processes api_generate_processes)

lemma serve_all_processes: "processes (foldl (serve dirname) s reqs) = processes s"
  by (induction reqs arbitrary: s) (simp_all add: serve_processes)

text \<open>
  Claim C7, as the code has it. The status query answers 404 exactly when the
  identifier has no entry in \<^verbatim>\<open>processes\<close>, and otherwise returns the status and the
  log lines of the entry. No request adds or changes an entry: a lifecycle operation
  does not create the session in the store, so on a server that started with the
  empty map every status query answers 404, whatever requests came before.
\<close>

theorem C7_status_query:
  "(api_status s sessionId = json_error 404 ''Session not found'')
     = (processes s sessionId = None)
   \<and> (processes s sessionId = Some p \<longrightarrow>
        api_status s sessionId
        = JsonResponse 200
            (JObj [(''status'', JStr (status p)), (''logs'', JArr (map JStr (logs p)))]))
   \<and> processes (serve dirname s req) = processes s
   \<and> (processes s = Map.empty \<longrightarrow>
        api_status (foldl (serve dirname) s reqs) sessionId
        = json_error 404 ''Session not found'')"
  by (auto simp: api_status_def json_error_def serve_processes serve_all_processes
      split: option.splits)

theorem C7_status_query_witness:
  "processes example_state = Map.empty
   \<and> api_status
        (foldl (serve example_dirname) example_state
           [Lifecycle Init \<lparr>q_sessionId = Some ''s1'', q_region = Some ''eu-west-1''\<rparr>
              [Stdout ''ok'', Close (Some 0)],
            Lifecycle Plan \<lparr>q_sessionId = Some ''s1'', q_region = None\<rparr>
              [Stdout ''ok'', Close (Some 0)]])
        ''s1''
      = json_error 404 ''Session not found''"
proof -
  have e: "processes example_state = Map.empty"
    by (simp add: example_state_def)
  from C7_status_query [where s = example_state and sessionId = "''s1''"
      and dirname = example_dirname
      and reqs = "[Lifecycle Init \<lparr>q_sessionId = Some ''s1'', q_region = Some ''eu-west-1''\<rparr>
              [Stdout ''ok'', Close (Some 0)],
            Lifecycle Plan \<lparr>q_sessionId = Some ''s1'', q_region = None\<rparr>
              [Stdout ''ok'', Close (Some 0)]]"] e
  show ?thesis by blast
qed

text \<open>
  Claim C7 as stated fails: after a successful init of session \<^verbatim>\<open>s1\<close> the status
  query for \<^verbatim>\<open>s1\<close> answers 404.
\<close>

theorem C7_counterexample:
  "response (api_terraform_init example_dirname example_state
       \<lparr>q_sessionId = Some ''s1'', q_region = Some ''eu-west-1''\<rparr>
       [Stdout ''ok'', Close (Some 0)])
     = EventStream [LogEvent ''ok'', StatusEvent ''completed''] True
   \<and> api_status
        (state (api_terraform_init example_dirname example_state
           \<lparr>q_sessionId = Some ''s1'', q_region = Some ''eu-west-1''\<rparr>
           [Stdout ''ok'', Close (Some 0)]))
        ''s1''
      = JsonResponse 404 (JObj [(''error'', JStr ''Session not found'')])"
  by (simp add: api_terraform_init_def example_dirname_def example_state_def example_fs_def
      path_join_def existsSync_def writeFileSync_def stream_terraform_def chdir_def
      runCommandWithStream_def settle_def res_write_def res_end_def Let_def api_status_def
      json_error_def)

section \<open>Failure of a lifecycle operation\<close>

lemma fails_first_settle:
  "fails evs \<Longrightarrow>
     \<exists>pre e post. evs = pre @ e # post \<and> \<not> list_ex settles pre \<and> settles e
        \<and> e \<noteq> Close (Some 0)"
proof (induction evs rule: fails.induct)
  case 1
  then show ?case by simp
next
  case (2 code evs)
  then have "Close code # evs = [] @ Close code # evs \<and> \<not> list_ex settles []
      \<and> settles (Close code) \<and> Close code \<noteq> Close (Some 0)"
    by simp
  then show ?case by blast
next
  case (3 message evs)
  have "SpawnError message # evs = [] @ SpawnError message # evs \<and> \<not> list_ex settles []
      \<and> settles (SpawnError message) \<and> SpawnError message \<noteq> Close (Some 0)"
    by simp
  then show ?case by blast
next
  case (4 v evs)
  then obtain pre e post where
    d: "evs = pre @ e # post" "\<not> list_ex settles pre" "settles e" "e \<noteq> Close (Some 0)"
    by auto
  then have "Stdout v # evs = (Stdout v # pre) @ e # post \<and> \<not> list_ex settles (Stdout v # pre)"
    by simp
  with d show ?case by blast
next
  case (5 v evs)
  then obtain pre e post where
    d: "evs = pre @ e # post" "\<not> list_ex settles pre" "settles e" "e \<noteq> Close (Some 0)"
    by auto
  then have "Stderr v # evs = (Stderr v # pre) @ e # post \<and> \<not> list_ex settles (Stderr v # pre)"
    by simp
  with d show ?case by blast
qed

lemma settlement_of_Rejected:
  "settles e \<Longrightarrow> e \<noteq> Close (Some 0) \<Longrightarrow> \<exists>m. settlement_of err e = Rejected m"
  by (cases e) (simp_all add: settlement_of_def)

lemma fails_rejected:
  assumes "fails evs"
  shows "\<exists>m. settled (runCommandWithStream finish open_feed evs) = Some (Rejected m)
           \<and> res (runCommandWithStream finish open_feed evs)
             = \<lparr>written = log_events (takeWhile (\<lambda>e. \<not> settles e) evs) @ [ErrorEvent m],
                ended = True\<rparr>"
proof -
  from fails_first_settle [OF assms] obtain pre e post where
    d: "evs = pre @ e # post" "\<not> list_ex settles pre" "settles e" "e \<noteq> Close (Some 0)"
    by blast
  from settlement_of_Rejected [OF d(3,4)] obtain m where
    m: "settlement_of (stderr_text pre) e = Rejected m"
    by blast
  have tw: "takeWhile (\<lambda>e. \<not> settles e) evs = pre"
    using d(1,2,3) by (simp add: takeWhile_append2 list_ex_iff)
  have "settled (runCommandWithStream finish open_feed evs) = Some (Rejected m)"
    using run_settled [OF d(2,3)] d(1) m by simp
  moreover have "res (runCommandWithStream finish open_feed evs)
             = \<lparr>written = log_events pre @ [ErrorEvent m], ended = True\<rparr>"
    using feed_settled [OF d(2,3)] d(1) m by simp
  ultimately show ?thesis using tw by simp
qed

text \<open>
  Claim C8, as the code has it. When the external tool fails during a lifecycle
  operation that answered with an event stream, the stream is ended and its last
  event is the error event carrying the message of the rejection, after the log events
  of the output that came before. The \<^verbatim>\<open>processes\<close> map is left as it was, and the
  status query answers after the failure what it answered before.
\<close>

theorem C8_failure_on_feed_only:
  assumes "fails evs"
    and "response (lifecycle op dirname s q evs) = EventStream ws e"
  shows "e
     \<and> (\<exists>m. settled (runCommandWithStream finish open_feed evs) = Some (Rejected m)
             \<and> ws = log_events (takeWhile (\<lambda>e. \<not> settles e) evs) @ [ErrorEvent m])
     \<and> processes (state (lifecycle op dirname s q evs)) = processes s
     \<and> api_status (state (lifecycle op dirname s q evs)) sessionId = api_status s sessionId"
proof -
  have we: "ws = written (res (runCommandWithStream finish open_feed evs))"
      "e = ended (res (runCommandWithStream finish open_feed evs))"
    using lifecycle_response [OF assms(2)] by simp_all
  from fails_rejected [OF assms(1)] we
  have "e \<and> (\<exists>m. settled (runCommandWithStream finish open_feed evs) = Some (Rejected m)
             \<and> ws = log_events (takeWhile (\<lambda>e. \<not> settles e) evs) @ [ErrorEvent m])"
    by auto
  moreover have "api_status (state (lifecycle op dirname s q evs)) sessionId = api_status s sessionId"
    by (simp add: api_status_def lifecycle_processes)
  ultimately show ?thesis by (simp add: lifecycle_processes)
qed

lemma plan_fails_example:
  "response (lifecycle Plan example_dirname example_state
       \<lparr>q_sessionId = Some ''s1'', q_region = None\<rparr>
       [Stderr ''Error: No configuration files'', Close (Some 1)])
     = EventStream [LogEvent ''Error: No configuration files'',
                    ErrorEvent ''Error: No configuration files''] True"
  by (simp add: api_terraform_plan_def example_dirname_def example_state_def example_fs_def
      path_join_def existsSync_def stream_terraform_def chdir_def runCommandWithStream_def
      settle_def res_write_def res_end_def Let_def)

theorem C8_failure_on_feed_only_witness:
  "fails [Stderr ''Error: No configuration files'', Close (Some 1)]
   \<and> response (lifecycle Plan example_dirname example_state
         \<lparr>q_sessionId = Some ''s1'', q_region = None\<rparr>
         [Stderr ''Error: No configuration files'', Close (Some 1)])
       = EventStream [LogEvent ''Error: No configuration files'',
                      ErrorEvent ''Error: No configuration files''] True
   \<and> processes (state (lifecycle Plan example_dirname example_state
         \<lparr>q_sessionId = Some ''s1'', q_region = None\<rparr>
         [Stderr ''Error: No configuration files'', Close (Some 1)]))
       = processes example_state"
proof -
  have f: "fails [Stderr ''Error: No configuration files'', Close (Some 1)]"
    by simp
  from C8_failure_on_feed_only [OF f plan_fails_example] f plan_fails_example
  show ?thesis by blast
qed

text \<open>
  Claim C8 as stated fails: after a plan of session \<^verbatim>\<open>s1\<close> that exits with code 1,
  the status query for \<^verbatim>\<open>s1\<close> answers 404 and reports no error status.
\<close>

theorem C8_counterexample:
  "fails [Stderr ''Error: No configuration files'', Close (Some 1)]
   \<and> api_status
        (state (api_terraform_plan example_dirname example_state
           \<lparr>q_sessionId = Some ''s1'', q_region = None\<rparr>
           [Stderr ''Error: No configuration files'', Close (Some 1)]))
        ''s1''
      = JsonResponse 404 (JObj [(''error'', JStr ''Session not found'')])"
  by (simp add: api_terraform_plan_def example_dirname_def example_state_def example_fs_def
      path_join_def existsSync_def stream_terraform_def chdir_def Let_def api_status_def
      json_error_def)

section \<open>The guard of the apply endpoint\<close>

text \<open>
  Claim C3, as the code has it. Apply is rejected with status 400, before any process
  is spawned and with the state unchanged, when the session identifier is missing or
  the session directory does not exist in the file system. When the identifier is
  given and the session directory is a directory, \<^verbatim>\<open>terraform apply -auto-approve tfplan\<close>
  is spawned in it and the response is the event stream of that run: neither the
  \<^verbatim>\<open>tfplan\<close> file nor the \<^verbatim>\<open>processes\<close> map is consulted. When the session path is a
  regular file, nothing is spawned either: \<^verbatim>\<open>process.chdir\<close> throws, or, for an
  identifier that ends in a slash, \<^verbatim>\<open>fs.existsSync\<close> is already false.
\<close>

theorem C3_apply_guard:
  "(\<not> present (q_sessionId q)
      \<or> fs s (path_join dirname [''environments'', param (q_sessionId q)]) = None
    \<longrightarrow> status_code (response (api_terraform_apply dirname s q evs)) = 400
        \<and> spawned (api_terraform_apply dirname s q evs) = []
        \<and> state (api_terraform_apply dirname s q evs) = s)
   \<and> (present (q_sessionId q)
        \<and> fs s (path_join dirname [''environments'', param (q_sessionId q)]) = Some Dir
    \<longrightarrow> spawned (api_terraform_apply dirname s q evs)
          = [\<lparr>command = ''terraform'', args = [''apply'', ''-auto-approve'', ''tfplan''],
               spawn_cwd = path_join dirname [''environments'', param (q_sessionId q)]\<rparr>]
        \<and> response (api_terraform_apply dirname s q evs)
          = EventStream (written (res (runCommandWithStream finish open_feed evs)))
              (ended (res (runCommandWithStream finish open_feed evs))))
   \<and> (present (q_sessionId q)
        \<and> fs s (path_join dirname [''environments'', param (q_sessionId q)]) = Some (File c)
        \<and> \<not> ends_with_slash (param (q_sessionId q))
    \<longrightarrow> response (api_terraform_apply dirname s q evs) = global_error_handler
        \<and> spawned (api_terraform_apply dirname s q evs) = [])
   \<and> (present (q_sessionId q)
        \<and> fs s (path_join dirname [''environments'', param (q_sessionId q)]) = Some (File c)
        \<and> ends_with_slash (param (q_sessionId q))
    \<longrightarrow> status_code (response (api_terraform_apply dirname s q evs)) = 400
        \<and> spawned (api_terraform_apply dirname s q evs) = []
        \<and> state (api_terraform_apply dirname s q evs) = s)"
  by (simp add: api_terraform_apply_def existsSync_def stream_terraform_def chdir_def Let_def
      json_error_def open_feed_def)

theorem C3_apply_guard_witness:
  "present (q_sessionId \<lparr>q_sessionId = Some ''s1'', q_region = None\<rparr>)
   \<and> fs example_state (path_join example_dirname
        [''environments'', param (q_sessionId \<lparr>q_sessionId = Some ''s1'', q_region = None\<rparr>)])
      = Some Dir
   \<and> spawned (api_terraform_apply example_dirname example_state
        \<lparr>q_sessionId = Some ''s1'', q_region = None\<rparr> [Close (Some 0)])
      = [\<lparr>command = ''terraform'', args = [''apply'', ''-auto-approve'', ''tfplan''],
           spawn_cwd = [''srv'', ''server'', ''environments'', ''s1'']\<rparr>]
   \<and> status_code (response (api_terraform_apply example_dirname example_state
        \<lparr>q_sessionId = Some ''s2'', q_region = None\<rparr> [Close (Some 0)])) = 400"
proof -
  have a: "present (q_sessionId \<lparr>q_sessionId = Some ''s1'', q_region = None\<rparr>)
     \<and> fs example_state (path_join example_dirname
          [''environments'', param (q_sessionId \<lparr>q_sessionId = Some ''s1'', q_region = None\<rparr>)])
        = Some Dir"
    by (simp add: example_state_def example_fs_def example_dirname_def path_join_def)
  have b: "fs example_state (path_join example_dirname
          [''environments'', param (q_sessionId \<lparr>q_sessionId = Some ''s2'', q_region = None\<rparr>)])
        = None"
    by (simp add: example_state_def example_fs_def example_dirname_def path_join_def)
  have p: "path_join example_dirname
          [''environments'', param (q_sessionId \<lparr>q_sessionId = Some ''s1'', q_region = None\<rparr>)]
        = [''srv'', ''server'', ''environments'', ''s1'']"
    by (simp add: example_dirname_def path_join_def)
  from C3_apply_guard [of "\<lparr>q_sessionId = Some ''s1'', q_region = None\<rparr>" example_state
      example_dirname "[Close (Some 0)]" undefined] a p
  have 1: "spawned (api_terraform_apply example_dirname example_state
        \<lparr>q_sessionId = Some ''s1'', q_region = None\<rparr> [Close (Some 0)])
      = [\<lparr>command = ''terraform'', args = [''apply'', ''-auto-approve'', ''tfplan''],
           spawn_cwd = [''srv'', ''server'', ''environments'', ''s1'']\<rparr>]"
    by simp
  from C3_apply_guard [of "\<lparr>q_sessionId = Some ''s2'', q_region = None\<rparr>" example_state
      example_dirname "[Close (Some 0)]" undefined] b
  have 2: "status_code (response (api_terraform_apply example_dirname example_state
        \<lparr>q_sessionId = Some ''s2'', q_region = None\<rparr> [Close (Some 0)])) = 400"
    by blast
  from a 1 2 show ?thesis by blast
qed

text \<open>
  Claim C3 as stated fails: with the session directory present and no \<^verbatim>\<open>tfplan\<close> in
  it, apply spawns the tool and streams its failure.
\<close>

theorem C3_counterexample:
  "fs example_state [''srv'', ''server'', ''environments'', ''s1'', ''tfplan''] = None
   \<and> spawned (api_terraform_apply example_dirname example_state
        \<lparr>q_sessionId = Some ''s1'', q_region = None\<rparr>
        [Stderr ''Error: Failed to load tfplan as a plan file'', Close (Some 1)])
      = [\<lparr>command = ''terraform'', args = [''apply'', ''-auto-approve'', ''tfplan''],
           spawn_cwd = [''srv'', ''server'', ''environments'', ''s1'']\<rparr>]
   \<and> response (api_terraform_apply example_dirname example_state
        \<lparr>q_sessionId = Some ''s1'', q_region = None\<rparr>
        [Stderr ''Error: Failed to load tfplan as a plan file'', Close (Some 1)])
      = EventStream [LogEvent ''Error: Failed to load tfplan as a plan file'',
                     ErrorEvent ''Error: Failed to load tfplan as a plan file''] True"
  by (simp add: api_terraform_apply_def example_dirname_def example_state_def example_fs_def
      path_join_def existsSync_def stream_terraform_def chdir_def runCommandWithStream_def
      settle_def res_write_def res_end_def Let_def)

section \<open>Validation of the render request\<close>

lemma status_code_generate_caught [simp]: "status_code (generate_caught e) = 500"
  by (simp add: generate_caught_def sendResponse_def)

lemma status_code_sendResponse [simp]: "status_code (sendResponse code data) = code"
  by (simp add: sendResponse_def)

text \<open>
  Claim C2, as the code has it. The render request is answered with status 400 exactly
  when the body is not an object, the name is missing or falsy, the environment is
  missing, or its region is missing or falsy; then nothing is written. The region is
  not compared with any list.
\<close>

theorem C2_generate_validation:
  "(status_code (fst (api_generate dirname s config)) = 400)
     = (\<not> truthy config \<or> \<not> typeof_object config
        \<or> \<not> truthy (get_prop config ''name'')
        \<or> \<not> truthy (get_prop config ''environment'')
        \<or> \<not> truthy (get_prop (get_prop config ''environment'') ''region''))
   \<and> (status_code (fst (api_generate dirname s config)) = 400
        \<longrightarrow> snd (api_generate dirname s config) = s)"
  by (auto simp: api_generate_def Let_def split: sum.splits)

lemma unlisted_region_text:
  "generateScoreYaml unlisted_region_descriptor
     = Inr (stringify 0 (scoreConfig_literal (JStr ''orders'')
              (JObj [(''region'', JStr ''not-a-region'')]) (JObj [])))"
  by (simp add: generateScoreYaml_def unlisted_region_descriptor_def)

theorem C2_generate_validation_witness:
  "truthy unlisted_region_descriptor \<and> typeof_object unlisted_region_descriptor
   \<and> truthy (get_prop unlisted_region_descriptor ''name'')
   \<and> truthy (get_prop unlisted_region_descriptor ''environment'')
   \<and> truthy (get_prop (get_prop unlisted_region_descriptor ''environment'') ''region'')
   \<and> status_code (fst (api_generate example_dirname example_state unlisted_region_descriptor))
       \<noteq> 400
   \<and> \<not> truthy (get_prop unnamed_descriptor ''name'')
   \<and> status_code (fst (api_generate example_dirname example_state unnamed_descriptor)) = 400"
proof -
  have t: "truthy unlisted_region_descriptor \<and> typeof_object unlisted_region_descriptor
     \<and> truthy (get_prop unlisted_region_descriptor ''name'')
     \<and> truthy (get_prop unlisted_region_descriptor ''environment'')
     \<and> truthy (get_prop (get_prop unlisted_region_descriptor ''environment'') ''region'')"
    by (simp add: unlisted_region_descriptor_def)
  have n: "\<not> truthy (get_prop unnamed_descriptor ''name'')"
    by (simp add: unnamed_descriptor_def)
  from C2_generate_validation [of example_dirname example_state unlisted_region_descriptor] t
  have 1: "status_code (fst (api_generate example_dirname example_state
      unlisted_region_descriptor)) \<noteq> 400"
    by blast
  from C2_generate_validation [of example_dirname example_state unnamed_descriptor] n
  have 2: "status_code (fst (api_generate example_dirname example_state unnamed_descriptor))
       = 400"
    by blast
  from t n 1 2 show ?thesis by blast
qed

text \<open>
  Claim C2 as stated fails: a descriptor with the name \<^verbatim>\<open>orders\<close> and the region
  \<^verbatim>\<open>not-a-region\<close>, which is not among the regions the form offers, is answered with
  status 200 and its score file is written.
\<close>

theorem C2_counterexample:
  "''not-a-region'' \<notin> set AWS_REGIONS
   \<and> status_code (fst (api_generate example_dirname example_state unlisted_region_descriptor))
      = 200
   \<and> is_file (fs (snd (api_generate example_dirname example_state unlisted_region_descriptor))
        [''srv'', ''server'', ''environment'', ''score.yaml''])"
proof -
  have t: "truthy unlisted_region_descriptor" "typeof_object unlisted_region_descriptor"
    "truthy (get_prop unlisted_region_descriptor ''name'')"
    "truthy (get_prop unlisted_region_descriptor ''environment'')"
    "truthy (get_prop (get_prop unlisted_region_descriptor ''environment'') ''region'')"
    by (simp_all add: unlisted_region_descriptor_def)
  show ?thesis
    by (simp add: AWS_REGIONS_def api_generate_def t unlisted_region_text example_dirname_def
        example_state_def example_fs_def path_join_def existsSync_def mkdirSync_def
        writeFileSync_def Let_def)
qed

section \<open>The configuration written by init\<close>

lemma writeFileSync_written:
  "writeFileSync f p content = Inr f' \<Longrightarrow> f' p = Some (File content)"
  by (auto simp: writeFileSync_def split: if_splits option.splits node.splits)

lemma stream_terraform_fs:
  "fs (state (stream_terraform tf_args envDir s evs)) = fs s"
  by (auto simp: stream_terraform_def chdir_def Let_def split: sum.splits option.splits node.splits)

lemma init_writes_mainTf:
  assumes "is_stream (response (api_terraform_init dirname s q evs))"
  shows "fs (state (api_terraform_init dirname s q evs)) (main_tf_path dirname q)
           = Some (File (mainTf (param (q_region q))))"
  using assms
  by (auto simp: api_terraform_init_def main_tf_path_def Let_def json_error_def
        global_error_handler_def sendResponse_def stream_terraform_fs
      dest: writeFileSync_written split: if_splits sum.splits)

lemma contains_join_with:
  "line \<in> set ls \<Longrightarrow> contains (join_with sep ls) line"
proof (induction sep ls rule: join_with.induct)
  case (1 sep)
  then show ?case by simp
next
  case (2 sep x)
  then show ?case by (simp add: contains_self)
next
  case (3 sep x y ys)
  show ?case
  proof (cases "line = x")
    case True
    then show ?thesis using contains_append_left [OF contains_self] by simp
  next
    case False
    with 3 have "contains (join_with sep (y # ys)) line" by simp
    then have "contains (x @ sep @ join_with sep (y # ys)) line"
      by (simp add: contains_append_right)
    then show ?thesis by simp
  qed
qed

lemma mainTf_resources: "set main_tf_resources \<subseteq> set (mainTf_lines region)"
  by (simp add: main_tf_resources_def mainTf_lines_def)

lemma mainTf_contains_resources: "list_all (contains (mainTf region)) main_tf_resources"
  using mainTf_resources [of region]
  by (auto simp: list_all_iff mainTf_def lines_text_def intro: contains_join_with)

text \<open>
  Claim C10. Whenever two init requests with the same region parameter reach the
  event stream, whatever their session identifiers, server directories, states and
  child processes, the \<^verbatim>\<open>main.tf\<close> each has written holds the same text: the template
  \<^verbatim>\<open>mainTf\<close> at that region, the lines of the template joined by line feeds. Init takes
  no descriptor; the written text always contains the opening lines of the VPC module,
  the EKS module, the RDS database instance and the Kubernetes deployment.
\<close>

theorem C10_main_tf_region_only:
  assumes "q_region q1 = q_region q2"
    and "is_stream (response (api_terraform_init dirname1 s1 q1 evs1))"
    and "is_stream (response (api_terraform_init dirname2 s2 q2 evs2))"
  shows "fs (state (api_terraform_init dirname1 s1 q1 evs1)) (main_tf_path dirname1 q1)
           = Some (File (mainTf (param (q_region q1))))
     \<and> fs (state (api_terraform_init dirname2 s2 q2 evs2)) (main_tf_path dirname2 q2)
           = Some (File (mainTf (param (q_region q1))))
     \<and> mainTf (param (q_region q1)) = lines_text (mainTf_lines (param (q_region q1)))
     \<and> set main_tf_resources \<subseteq> set (mainTf_lines (param (q_region q1)))
     \<and> list_all (contains (mainTf (param (q_region q1)))) main_tf_resources"
  using init_writes_mainTf [OF assms(2)] init_writes_mainTf [OF assms(3)] assms(1)
    mainTf_resources [of "param (q_region q1)"]
    mainTf_contains_resources [of "param (q_region q1)"]
  by (simp add: mainTf_def)

lemma init_example_s1:
  "is_stream (response (api_terraform_init example_dirname example_state
      \<lparr>q_sessionId = Some ''s1'', q_region = Some ''eu-west-1''\<rparr> [Stdout ''ok'', Close (Some 0)]))"
  by (simp add: api_terraform_init_def example_dirname_def example_state_def example_fs_def
      path_join_def existsSync_def writeFileSync_def stream_terraform_def chdir_def Let_def)

lemma init_example_s2:
  "is_stream (response (api_terraform_init [''opt''] \<lparr>fs = Map.empty, cwd = [], processes = Map.empty\<rparr>
      \<lparr>q_sessionId = Some ''s2'', q_region = Some ''eu-west-1''\<rparr> [SpawnError ''ENOENT'']))"
  by (simp add: api_terraform_init_def path_join_def existsSync_def mkdirSync_def
      writeFileSync_def stream_terraform_def chdir_def Let_def)

theorem C10_main_tf_region_only_witness:
  "q_region \<lparr>q_sessionId = Some ''s1'', q_region = Some ''eu-west-1''\<rparr>
     = q_region \<lparr>q_sessionId = Some ''s2'', q_region = Some ''eu-west-1''\<rparr>
   \<and> is_stream (response (api_terraform_init example_dirname example_state
        \<lparr>q_sessionId = Some ''s1'', q_region = Some ''eu-west-1''\<rparr> [Stdout ''ok'', Close (Some 0)]))
   \<and> is_stream (response (api_terraform_init [''opt'']
        \<lparr>fs = Map.empty, cwd = [], processes = Map.empty\<rparr>
        \<lparr>q_sessionId = Some ''s2'', q_region = Some ''eu-west-1''\<rparr> [SpawnError ''ENOENT'']))
   \<and> fs (state (api_terraform_init example_dirname example_state
        \<lparr>q_sessionId = Some ''s1'', q_region = Some ''eu-west-1''\<rparr> [Stdout ''ok'', Close (Some 0)]))
        [''srv'', ''server'', ''environments'', ''s1'', ''main.tf'']
      = Some (File (mainTf ''eu-west-1''))
   \<and> fs (state (api_terraform_init [''opt'']
        \<lparr>fs = Map.empty, cwd = [], processes = Map.empty\<rparr>
        \<lparr>q_sessionId = Some ''s2'', q_region = Some ''eu-west-1''\<rparr> [SpawnError ''ENOENT'']))
        [''opt'', ''environments'', ''s2'', ''main.tf'']
      = Some (File (mainTf ''eu-west-1''))
   \<and> list_all (contains (mainTf ''eu-west-1'')) main_tf_resources"
proof -
  have e: "q_region \<lparr>q_sessionId = Some ''s1'', q_region = Some ''eu-west-1''\<rparr>
     = q_region \<lparr>q_sessionId = Some ''s2'', q_region = Some ''eu-west-1''\<rparr>"
    by simp
  have p1: "main_tf_path example_dirname \<lparr>q_sessionId = Some ''s1'', q_region = Some ''eu-west-1''\<rparr>
      = [''srv'', ''server'', ''environments'', ''s1'', ''main.tf'']"
    and p2: "main_tf_path [''opt''] \<lparr>q_sessionId = Some ''s2'', q_region = Some ''eu-west-1''\<rparr>
      = [''opt'', ''environments'', ''s2'', ''main.tf'']"
    by (simp_all add: main_tf_path_def example_dirname_def path_join_def)
  have r: "param (q_region \<lparr>q_sessionId = Some ''s1'', q_region = Some ''eu-west-1''\<rparr>)
      = ''eu-west-1''"
    by simp
  note t = C10_main_tf_region_only [OF e init_example_s1 init_example_s2, unfolded r p1 p2]
  from t e init_example_s1 init_example_s2 show ?thesis by blast
qed

section \<open>Isolation of session directories\<close>



lemma path_join_file [simp]: "path_join base [''score.yaml''] = base @ [''score.yaml'']"
  by (simp add: path_join_def)

lemma path_join_main_tf [simp]: "path_join base [''main.tf''] = base @ [''main.tf'']"
  by (simp add: path_join_def)

lemma path_join_environment [simp]: "path_join base [''environment''] = base @ [''environment'']"
  by (simp add: path_join_def)








lemma untouched_refl [simp]: "untouched_inside dir f f"
  by (simp add: untouched_inside_def)






















text \<open>
  The score lookup binds the session identifier of the route and does not use it: for
  session \<^verbatim>\<open>abc\<close> it answers with the content of \<^verbatim>\<open>score.yaml\<close> in the working
  directory of session \<^verbatim>\<open>dev\<close>.
\<close>

lemma score_lookup_reads_dev:
  "api_score example_dirname example_state ''abc''
       = JsonResponse 404 (JObj [(''error'', JStr ''Score file not found'')])
   \<and> api_score example_dirname
        (example_state\<lparr>fs := (fs example_state)
           (session_dir example_dirname ''dev'' @ [''score.yaml''] \<mapsto> File ''secret'')\<rparr>)
        ''abc''
       = JsonResponse 200 (JObj [(''scoreFile'', JStr ''secret'')])"
  by (simp add: api_score_def session_dir_def example_dirname_def
      example_state_def example_fs_def path_join_def existsSync_def readFileSync_def
      json_error_def Let_def)

end
